theory Spec2Isabelle
  imports Main "HOL-Library.Word"
begin

section \<open>JavaScript values, errors and the platform functions the wrapper calls\<close>

text \<open>
  The module \<^verbatim>\<open>lib/exiftool-wrapper.js\<close> exports \<^verbatim>\<open>metadata\<close> (promise and optional
  callback) and \<^verbatim>\<open>metadataSync\<close>. Both receive an untyped options object, so the
  \<^verbatim>\<open>source\<close> option is modelled as an arbitrary JavaScript value. Numbers are carried by
  their integer value, with \<open>JNaN\<close> apart; an object is the association list of its own
  properties; a \<^verbatim>\<open>Buffer\<close> is its list of bytes.
\<close>

type_synonym byte = "8 word"

datatype jsval =
    JUndefined
  | JNull
  | JBool bool
  | JNum int
  | JNaN
  | JStr string
  | JArr "jsval list"
  | JObj "(string \<times> jsval) list"
  | JBuf "byte list"

text \<open>\<^verbatim>\<open>!source\<close> is the negation of JavaScript's ToBoolean.\<close>

fun truthy :: "jsval \<Rightarrow> bool" where
  "truthy JUndefined = False"
| "truthy JNull = False"
| "truthy (JBool b) = b"
| "truthy (JNum n) = (n \<noteq> 0)"
| "truthy JNaN = False"
| "truthy (JStr s) = (s \<noteq> [])"
| "truthy (JArr xs) = True"
| "truthy (JObj ps) = True"
| "truthy (JBuf bs) = True"

text \<open>
  Reading \<^verbatim>\<open>v.length\<close>: a TypeError (here \<open>None\<close>) on \<^verbatim>\<open>undefined\<close> and \<^verbatim>\<open>null\<close>,
  \<^verbatim>\<open>undefined\<close> on a number or a boolean, the length of a string, an array or a buffer,
  and the own property of that name on an object.
\<close>

fun get_length :: "jsval \<Rightarrow> jsval option" where
  "get_length JUndefined = None"
| "get_length JNull = None"
| "get_length (JBool b) = Some JUndefined"
| "get_length (JNum n) = Some JUndefined"
| "get_length JNaN = Some JUndefined"
| "get_length (JStr s) = Some (JNum (int (length s)))"
| "get_length (JArr xs) = Some (JNum (int (length xs)))"
| "get_length (JObj ps) = Some (case map_of ps ''length'' of None \<Rightarrow> JUndefined | Some l \<Rightarrow> l)"
| "get_length (JBuf bs) = Some (JNum (int (length bs)))"

text \<open>
  Reading \<^verbatim>\<open>v[0]\<close> on a value whose \<^verbatim>\<open>length\<close> could be read: the first element or
  character, the own property \<^verbatim>\<open>"0"\<close> of an object, \<^verbatim>\<open>undefined\<close> where there is none.
\<close>

fun get_index0 :: "jsval \<Rightarrow> jsval" where
  "get_index0 (JStr s) = (case s of [] \<Rightarrow> JUndefined | c # cs \<Rightarrow> JStr [c])"
| "get_index0 (JArr xs) = (case xs of [] \<Rightarrow> JUndefined | x # ys \<Rightarrow> x)"
| "get_index0 (JObj ps) = (case map_of ps ''0'' of None \<Rightarrow> JUndefined | Some x \<Rightarrow> x)"
| "get_index0 (JBuf bs) = (case bs of [] \<Rightarrow> JUndefined | b # cs \<Rightarrow> JNum (uint b))"
| "get_index0 v = JUndefined"

text \<open>
  Error objects: the class, the message and the properties the wrapper attaches
  (\<^verbatim>\<open>stderr\<close>, \<^verbatim>\<open>stdout\<close>, \<^verbatim>\<open>code\<close> in the asynchronous form, \<^verbatim>\<open>commandlog\<close>, an
  object with \<^verbatim>\<open>stdout\<close> and \<^verbatim>\<open>stderr\<close>, in the synchronous form). A property that
  was never assigned is \<open>None\<close>. An exit code is \<open>None\<close> when the process was ended by
  a signal (\<^verbatim>\<open>null\<close>).
\<close>

datatype errkind = Error | TypeError

type_synonym exit_code = "int option"

record jserror =
  kind :: errkind
  message :: string
  stderr :: "string option"
  stdout :: "string option"
  code :: "exit_code option"
  commandlog :: "(string \<times> string) option"

definition new_Error :: "errkind \<Rightarrow> string \<Rightarrow> jserror" where
  "new_Error k m =
     \<lparr>kind = k, message = m, stderr = None, stdout = None, code = None, commandlog = None\<rparr>"

text \<open>The template literal \<^verbatim>\<open>${code}\<close>: decimal digits, a sign, or \<^verbatim>\<open>null\<close>.\<close>

fun digits :: "nat \<Rightarrow> string" where
  "digits n =
     (if n < 10 then [''0123456789'' ! n]
      else digits (n div 10) @ [''0123456789'' ! (n mod 10)])"

declare digits.simps [simp del]

definition string_of_code :: "exit_code \<Rightarrow> string" where
  "string_of_code c =
     (case c of
        None \<Rightarrow> ''null''
      | Some i \<Rightarrow> (if i < 0 then CHR ''-'' # digits (nat (- i)) else digits (nat i)))"

text \<open>
  \<^verbatim>\<open>Buffer.prototype.slice(start, end)\<close> of Node.js: an index below zero counts from the
  end, and every index is clamped to the buffer.
\<close>

definition adjustOffset :: "int \<Rightarrow> nat \<Rightarrow> nat" where
  "adjustOffset offset len =
     (if offset < 0 then nat (offset + int len)
      else if offset < int len then nat offset
      else len)"

definition slice :: "byte list \<Rightarrow> int \<Rightarrow> int \<Rightarrow> byte list" where
  "slice buf start end =
     (let s = adjustOffset start (length buf); e = adjustOffset end (length buf)
      in take (e - s) (drop s buf))"

section \<open>The options object and the helpers\<close>

text \<open>
  A field that the caller left out (\<^verbatim>\<open>undefined\<close>) is \<open>None\<close>; each function applies
  the defaults of its own parameter list. A completion function is known by what a call of
  it does to the wrapper: for the two arguments of the call it says whether the call throws
  (\<open>True\<close>) or returns. Each of its invocations is recorded with the two arguments.
\<close>

type_synonym completion = "jserror option \<Rightarrow> jsval \<Rightarrow> bool"

record options =
  source :: jsval
  tags :: "string list option"
  useBufferLimit :: "bool option"
  maxBufferSize :: "int option"
  config :: "string option"
  callback :: "completion option"

definition default_to :: "'a \<Rightarrow> 'a option \<Rightarrow> 'a" where
  "default_to d x = (case x of None \<Rightarrow> d | Some v \<Rightarrow> v)"

definition prepareTags :: "string list option \<Rightarrow> jsval list" where
  "prepareTags tgs =
     (case tgs of
        Some ts \<Rightarrow> map (\<lambda>tagname. JStr (CHR ''-'' # tagname)) ts
      | None \<Rightarrow> [])"

section \<open>The synchronous form\<close>

text \<open>
  \<^verbatim>\<open>spawnSync\<close> is a parameter: it maps the argument list and the optional \<^verbatim>\<open>input\<close> to
  what the process left behind. \<^verbatim>\<open>JSON.parse\<close> is a parameter too, \<open>None\<close> being its
  SyntaxError. The run records every invocation of the process and the local
  \<^verbatim>\<open>exifparams\<close> as it stands when the function is left. The model covers the runs in
  which the process was started, so that both captured streams are texts.
\<close>

record spawn_result =
  et_stdout :: string
  et_stderr :: string
  et_status :: exit_code

record sync_run =
  outcome :: "jserror + jsval"
  invoked :: "(jsval list \<times> byte list option) list"
  exifparams :: "jsval list"

definition metadataSync ::
  "(string \<Rightarrow> jsval option) \<Rightarrow> (jsval list \<Rightarrow> byte list option \<Rightarrow> spawn_result) \<Rightarrow>
   options \<Rightarrow> sync_run" where
  "metadataSync JSON_parse spawnSync opts =
     (if \<not> truthy (source opts) then
        \<lparr>outcome = Inl (new_Error Error ''Undefined \"source\"''), invoked = [], exifparams = []\<rparr>
      else
        let params = prepareTags (tags opts) @ [JStr ''-j''];
            branch =
              (case source opts of
                 JBuf b \<Rightarrow>
                   Inr (params @ [JStr ''-''],
                        Some (if default_to True (useBufferLimit opts)
                              then slice b 0 (default_to 10000 (maxBufferSize opts))
                              else b))
               | JStr s \<Rightarrow> Inr (params @ [JStr s], None)
               | JArr xs \<Rightarrow> Inr (params @ xs, None)
               | _ \<Rightarrow> Inl (new_Error TypeError ''\"source\" must be a string, [string] or Buffer''))
        in case branch of
             Inl e \<Rightarrow> \<lparr>outcome = Inl e, invoked = [], exifparams = params\<rparr>
           | Inr (args, inp) \<Rightarrow>
               let etdata = spawnSync args inp;
                   err = (new_Error Error ''Could not parse data returned by ExifTool'')
                           \<lparr>commandlog := Some (et_stdout etdata, et_stderr etdata)\<rparr>
               in \<lparr>outcome =
                      (case JSON_parse (et_stdout etdata) of
                         None \<Rightarrow> Inl err
                       | Some parseddata \<Rightarrow>
                           (case get_length parseddata of
                              None \<Rightarrow> Inl err
                            | Some l \<Rightarrow>
                                Inr (if l = JNum 1 then get_index0 parseddata else parseddata))),
                    invoked = [(args, inp)],
                    exifparams =
                      (case config opts of
                         None \<Rightarrow> args
                       | Some c \<Rightarrow> JStr ''-config'' # JStr c # args)\<rparr>)"

section \<open>The asynchronous form\<close>

text \<open>
  The promise settles once; later calls of \<^verbatim>\<open>resolve\<close> and \<^verbatim>\<open>reject\<close> change nothing.
  The state holds the promise, the invocations of the callback, the argument lists
  \<^verbatim>\<open>spawn\<close> was called with, what was done to the child's input stream, the two
  accumulators of the handlers, and whether an exception of the callback has left the
  \<^verbatim>\<open>nextTick\<close> function or a handler. A data event carries the text its chunk is
  converted to when it is appended (\<^verbatim>\<open>exifdata += data\<close>).
\<close>

datatype settle = Pending | Resolved jsval | Rejected jserror

datatype stdin_op = Write "byte list" | End

datatype event =
    StdoutData string
  | StderrData string
  | Close exit_code
  | ErrorEvent jserror

record astate =
  promise :: settle
  cb_calls :: "(jserror option \<times> jsval) list"
  spawned :: "jsval list list"
  stdin_ops :: "stdin_op list"
  exifdata :: string
  exiferr :: string
  uncaught :: bool

text \<open>
  \<^verbatim>\<open>tryCallback\<close> calls the completion function when there is one; the first component of
  its result says whether that call threw.
\<close>

definition tryCallback ::
  "completion option \<Rightarrow> jserror option \<Rightarrow> jsval \<Rightarrow> astate \<Rightarrow> bool \<times> astate" where
  "tryCallback cbfunction error result st =
     (case cbfunction of
        None \<Rightarrow> (False, st)
      | Some f \<Rightarrow> (f error result, st\<lparr>cb_calls := cb_calls st @ [(error, result)]\<rparr>))"

definition resolve :: "jsval \<Rightarrow> astate \<Rightarrow> astate" where
  "resolve v st = (if promise st = Pending then st\<lparr>promise := Resolved v\<rparr> else st)"

definition reject :: "jserror \<Rightarrow> astate \<Rightarrow> astate" where
  "reject e st = (if promise st = Pending then st\<lparr>promise := Rejected e\<rparr> else st)"

definition initial :: astate where
  "initial =
     \<lparr>promise = Pending, cb_calls = [], spawned = [], stdin_ops = [], exifdata = [], exiferr = [],
      uncaught = False\<rparr>"

text \<open>
  The body of the \<^verbatim>\<open>process.nextTick\<close> function up to the registration of the handlers.
  An exception of the callback leaves the function at once: what follows the call, the
  \<^verbatim>\<open>reject\<close> first, is not reached.
\<close>

definition metadata_tick :: "options \<Rightarrow> astate" where
  "metadata_tick opts =
     (let error = new_Error TypeError ''\"source\" must be a string, [string] or Buffer'' in
      if \<not> truthy (source opts) then
        (let (threw, st) = tryCallback (callback opts) (Some error) JUndefined initial
         in if threw then st\<lparr>uncaught := True\<rparr> else reject error st)
      else
        let params = prepareTags (Some (default_to [] (tags opts))) @ [JStr ''-j''];
            branch =
              (case source opts of
                 JBuf b \<Rightarrow> Inr (True, params @ [JStr ''-''], initial)
               | JStr s \<Rightarrow> Inr (False, params @ [JStr s], initial)
               | JArr xs \<Rightarrow> Inr (False, params @ xs, initial)
               | _ \<Rightarrow>
                   (let (threw, st) = tryCallback (callback opts) (Some error) JUndefined initial
                    in if threw then Inl (st\<lparr>uncaught := True\<rparr>)
                       else Inr (False, params, reject error st)))
        in case branch of
             Inl st \<Rightarrow> st
           | Inr (usingBuffer, params1, st1) \<Rightarrow>
               (let params2 =
                      (case config opts of
                         None \<Rightarrow> params1
                       | Some c \<Rightarrow> JStr ''-config'' # JStr c # params1);
                    st2 = st1\<lparr>spawned := spawned st1 @ [params2]\<rparr>
                in if usingBuffer then
                     (case source opts of
                        JBuf b \<Rightarrow>
                          st2\<lparr>stdin_ops := stdin_ops st2 @
                                [Write (if default_to True (useBufferLimit opts)
                                        then slice b 0 (default_to 10000 (maxBufferSize opts))
                                        else b),
                                 End]\<rparr>
                      | _ \<Rightarrow> st2)
                   else st2))"

text \<open>
  The handlers of \<^verbatim>\<open>data\<close> on both streams, of \<^verbatim>\<open>close\<close> and of \<^verbatim>\<open>error\<close>. In the
  \<^verbatim>\<open>close\<close> handler the \<^verbatim>\<open>catch\<close> block (\<open>close_failed\<close>) is entered from
  \<^verbatim>\<open>JSON.parse\<close>, from the reading of \<^verbatim>\<open>length\<close>, and from a callback that throws when it
  is handed the result; an exception of the callback inside the \<^verbatim>\<open>catch\<close> block leaves the
  handler before \<^verbatim>\<open>reject\<close>.
\<close>

definition close_failed :: "completion option \<Rightarrow> exit_code \<Rightarrow> astate \<Rightarrow> astate" where
  "close_failed cb c st =
     (let error =
            (if length (exiferr st) > 0
             then new_Error Error
                    (''Exiftool failed with exit code '' @ string_of_code c @
                     [CHR '':'', CHR 0x0A, CHR '' ''] @ exiferr st)
             else new_Error Error ''Could not parse exiftool output!'')
            \<lparr>stderr := Some (exiferr st), stdout := Some (exifdata st), code := Some c\<rparr>;
          (threw, st1) = tryCallback cb (Some error) JUndefined st
      in if threw then st1\<lparr>uncaught := True\<rparr> else reject error st1)"

definition on_close ::
  "(string \<Rightarrow> jsval option) \<Rightarrow> completion option \<Rightarrow> exit_code \<Rightarrow> astate \<Rightarrow> astate" where
  "on_close JSON_parse cb c st =
     (case JSON_parse (exifdata st) of
        None \<Rightarrow> close_failed cb c st
      | Some parseddata \<Rightarrow>
          (case get_length parseddata of
             None \<Rightarrow> close_failed cb c st
           | Some l \<Rightarrow>
               (let result = (if l = JNum 1 then get_index0 parseddata else parseddata);
                    (threw, st1) = tryCallback cb None result st
                in if threw then close_failed cb c st1 else resolve result st1)))"

definition on_event ::
  "(string \<Rightarrow> jsval option) \<Rightarrow> completion option \<Rightarrow> astate \<Rightarrow> event \<Rightarrow> astate" where
  "on_event JSON_parse cb st ev =
     (case ev of
        StdoutData d \<Rightarrow> st\<lparr>exifdata := exifdata st @ d\<rparr>
      | StderrData d \<Rightarrow> st\<lparr>exiferr := exiferr st @ d\<rparr>
      | Close c \<Rightarrow> on_close JSON_parse cb c st
      | ErrorEvent e \<Rightarrow> reject e st)"

text \<open>
  A call of \<^verbatim>\<open>metadata\<close> followed by the events of the child process, in the order they
  arrive. Without a child process there are no handlers and no events.
\<close>

definition metadata :: "(string \<Rightarrow> jsval option) \<Rightarrow> options \<Rightarrow> event list \<Rightarrow> astate" where
  "metadata JSON_parse opts evs =
     (let st = metadata_tick opts
      in if spawned st = [] then st
         else foldl (on_event JSON_parse (callback opts)) st evs)"

section \<open>Vocabulary of the properties\<close>

text \<open>
  The three shapes of \<^verbatim>\<open>source\<close> that the branches of both functions accept, and the
  arguments each shape contributes after \<^verbatim>\<open>-j\<close>.
\<close>

fun supported :: "jsval \<Rightarrow> bool" where
  "supported (JStr s) = True"
| "supported (JArr xs) = True"
| "supported (JBuf bs) = True"
| "supported v = False"

fun source_args :: "jsval \<Rightarrow> jsval list" where
  "source_args (JBuf bs) = [JStr ''-'']"
| "source_args (JStr s) = [JStr s]"
| "source_args (JArr xs) = xs"
| "source_args v = []"

text \<open>A call of the completion function with these arguments returns, or there is none.\<close>

definition returns :: "completion option \<Rightarrow> jserror option \<Rightarrow> jsval \<Rightarrow> bool" where
  "returns cb e r = (case cb of None \<Rightarrow> True | Some f \<Rightarrow> \<not> f e r)"

text \<open>
  A process that runs to its end delivers chunks of its two streams and then \<^verbatim>\<open>close\<close>.
  \<open>stdout_of\<close> and \<open>stderr_of\<close> are the texts the chunks add up to.
\<close>

fun is_data :: "event \<Rightarrow> bool" where
  "is_data (StdoutData d) = True"
| "is_data (StderrData d) = True"
| "is_data e = False"

fun stdout_of :: "event list \<Rightarrow> string" where
  "stdout_of [] = []"
| "stdout_of (StdoutData d # evs) = d @ stdout_of evs"
| "stdout_of (e # evs) = stdout_of evs"

fun stderr_of :: "event list \<Rightarrow> string" where
  "stderr_of [] = []"
| "stderr_of (StderrData d # evs) = d @ stderr_of evs"
| "stderr_of (e # evs) = stderr_of evs"

text \<open>
  The two parts of a synchronous run that depend on the process: what is handed to it as
  \<^verbatim>\<open>input\<close>, and what the \<^verbatim>\<open>try\<close> block makes of its result.
\<close>

definition sync_input :: "options \<Rightarrow> byte list option" where
  "sync_input opts =
     (case source opts of
        JBuf b \<Rightarrow> Some (if default_to True (useBufferLimit opts)
                         then slice b 0 (default_to 10000 (maxBufferSize opts)) else b)
      | _ \<Rightarrow> None)"

definition sync_result :: "(string \<Rightarrow> jsval option) \<Rightarrow> spawn_result \<Rightarrow> jserror + jsval" where
  "sync_result P etdata =
     (case P (et_stdout etdata) of
        None \<Rightarrow> Inl ((new_Error Error ''Could not parse data returned by ExifTool'')
                      \<lparr>commandlog := Some (et_stdout etdata, et_stderr etdata)\<rparr>)
      | Some v \<Rightarrow>
          (case get_length v of
             None \<Rightarrow> Inl ((new_Error Error ''Could not parse data returned by ExifTool'')
                           \<lparr>commandlog := Some (et_stdout etdata, et_stderr etdata)\<rparr>)
           | Some l \<Rightarrow> Inr (if l = JNum 1 then get_index0 v else v)))"

text \<open>
  The TypeError of both wrong-shape branches and of the asynchronous falsy branch, and the
  error the \<^verbatim>\<open>close\<close> handler builds from the exit code and the two accumulators.
\<close>

definition shape_error :: jserror where
  "shape_error = new_Error TypeError ''\"source\" must be a string, [string] or Buffer''"

definition close_error :: "exit_code \<Rightarrow> string \<Rightarrow> string \<Rightarrow> jserror" where
  "close_error c out err =
     \<lparr>kind = Error,
      message =
        (if err = [] then ''Could not parse exiftool output!''
         else ''Exiftool failed with exit code '' @ string_of_code c @
              [CHR '':'', CHR 0x0A, CHR '' ''] @ err),
      stderr = Some err, stdout = Some out, code = Some c, commandlog = None\<rparr>"

section \<open>Concrete inputs\<close>

text \<open>
  A parser that knows a few JSON texts and rejects every other text, a process that prints
  fixed texts whatever it is given, and options objects: a path with tags, a configuration
  file and a callback; a buffer of three bytes under a limit; a number, nothing, and an array
  that holds a number as the source; a path alone; a path with a callback that throws when
  it is handed a result.
\<close>

definition sample_parse :: "string \<Rightarrow> jsval option" where
  "sample_parse s =
     (if s = ''[{}]'' then Some (JArr [JObj []])
      else if s = ''[{},{}]'' then Some (JArr [JObj [], JObj []])
      else if s = ''[]'' then Some (JArr [])
      else if s = ''null'' then Some JNull
      else if s = ''\"a\"'' then Some (JStr ''a'')
      else if s = ''{\"length\":1}'' then Some (JObj [(''length'', JNum 1)])
      else None)"

definition process_printing ::
  "string \<Rightarrow> string \<Rightarrow> exit_code \<Rightarrow> jsval list \<Rightarrow> byte list option \<Rightarrow> spawn_result" where
  "process_printing out err c args inp = \<lparr>et_stdout = out, et_stderr = err, et_status = c\<rparr>"

definition sample_opts :: options where
  "sample_opts =
     \<lparr>source = JStr ''a.jpg'', tags = Some [''Model'', ''-ThumbnailImage''],
      useBufferLimit = None, maxBufferSize = None, config = Some ''my.cfg'', callback = Some (\<lambda>e r. False)\<rparr>"

definition buffer_opts :: "int \<Rightarrow> options" where
  "buffer_opts n =
     \<lparr>source = JBuf [1, 2, 3], tags = None, useBufferLimit = Some True, maxBufferSize = Some n,
      config = None, callback = None\<rparr>"

definition missing_opts :: options where
  "missing_opts =
     \<lparr>source = JUndefined, tags = None, useBufferLimit = None, maxBufferSize = None,
      config = None, callback = Some (\<lambda>e r. False)\<rparr>"

definition array_opts :: options where
  "array_opts =
     \<lparr>source = JArr [JNum 42], tags = None, useBufferLimit = None, maxBufferSize = None,
      config = None, callback = None\<rparr>"


definition throwing_opts :: options where
  "throwing_opts =
     \<lparr>source = JStr ''a.jpg'', tags = None, useBufferLimit = None, maxBufferSize = None,
      config = None, callback = Some (\<lambda>e r. e = None)\<rparr>"

definition number_opts :: options where
  "number_opts =
     \<lparr>source = JNum 42, tags = None, useBufferLimit = None, maxBufferSize = None,
      config = None, callback = Some (\<lambda>e r. False)\<rparr>"

section \<open>The exit code in a message\<close>

lemma string_of_code_examples:
  "string_of_code (Some 0) = ''0''" "string_of_code (Some 255) = ''255''"
  "string_of_code (Some (- 2)) = ''-2''" "string_of_code None = ''null''"
  by (simp_all add: string_of_code_def digits.simps)

section \<open>What the handlers leave untouched\<close>

lemma resolve_fields [simp]:
  "cb_calls (resolve v st) = cb_calls st" "spawned (resolve v st) = spawned st"
  "stdin_ops (resolve v st) = stdin_ops st" "exifdata (resolve v st) = exifdata st"
  "exiferr (resolve v st) = exiferr st" "uncaught (resolve v st) = uncaught st"
  by (simp_all add: resolve_def)

lemma reject_fields [simp]:
  "cb_calls (reject e st) = cb_calls st" "spawned (reject e st) = spawned st"
  "stdin_ops (reject e st) = stdin_ops st" "exifdata (reject e st) = exifdata st"
  "exiferr (reject e st) = exiferr st" "uncaught (reject e st) = uncaught st"
  by (simp_all add: reject_def)

lemma tryCallback_threw [simp]:
  "fst (tryCallback cb e r st) = (\<not> returns cb e r)"
  by (cases cb) (simp_all add: tryCallback_def returns_def)

lemma tryCallback_fields [simp]:
  "promise (snd (tryCallback cb e r st)) = promise st"
  "spawned (snd (tryCallback cb e r st)) = spawned st"
  "stdin_ops (snd (tryCallback cb e r st)) = stdin_ops st"
  "exifdata (snd (tryCallback cb e r st)) = exifdata st"
  "exiferr (snd (tryCallback cb e r st)) = exiferr st"
  "uncaught (snd (tryCallback cb e r st)) = uncaught st"
  by (cases cb; simp add: tryCallback_def)+

lemma tryCallback_calls [simp]:
  "cb_calls (snd (tryCallback cb e r st)) =
     cb_calls st @ (case cb of None \<Rightarrow> [] | Some f \<Rightarrow> [(e, r)])"
  by (cases cb) (simp_all add: tryCallback_def)

lemma close_failed_error:
  "(if length err > 0
    then new_Error Error
           (''Exiftool failed with exit code '' @ string_of_code c @
            [CHR '':'', CHR 0x0A, CHR '' ''] @ err)
    else new_Error Error ''Could not parse exiftool output!'')
   \<lparr>stderr := Some err, stdout := Some out, code := Some c\<rparr> = close_error c out err"
  by (simp add: close_error_def new_Error_def)

lemma close_failed_eq:
  "close_failed cb c st =
     (if returns cb (Some (close_error c (exifdata st) (exiferr st))) JUndefined
      then reject (close_error c (exifdata st) (exiferr st))
             (snd (tryCallback cb (Some (close_error c (exifdata st) (exiferr st))) JUndefined st))
      else (snd (tryCallback cb (Some (close_error c (exifdata st) (exiferr st))) JUndefined st))
             \<lparr>uncaught := True\<rparr>)"
  unfolding close_failed_def Let_def close_failed_error case_prod_beta
  by simp

lemma close_failed_fields [simp]:
  "spawned (close_failed cb c st) = spawned st" "stdin_ops (close_failed cb c st) = stdin_ops st"
  "exifdata (close_failed cb c st) = exifdata st" "exiferr (close_failed cb c st) = exiferr st"
  by (simp_all add: close_failed_eq)

lemma close_failed_calls:
  "cb_calls (close_failed cb c st) =
     cb_calls st @
     (case cb of None \<Rightarrow> []
      | Some f \<Rightarrow> [(Some (close_error c (exifdata st) (exiferr st)), JUndefined)])"
  by (simp add: close_failed_eq)

lemma close_failed_promise:
  "promise (close_failed cb c st) =
     (if promise st = Pending \<and> returns cb (Some (close_error c (exifdata st) (exiferr st))) JUndefined
      then Rejected (close_error c (exifdata st) (exiferr st)) else promise st)"
  by (simp add: close_failed_eq reject_def)

lemma on_close_process [simp]:
  "spawned (on_close P cb c st) = spawned st" "stdin_ops (on_close P cb c st) = stdin_ops st"
  unfolding on_close_def Let_def case_prod_beta
  by (simp_all split: option.split)

lemma on_event_process [simp]:
  "spawned (on_event P cb st ev) = spawned st" "stdin_ops (on_event P cb st ev) = stdin_ops st"
  by (cases ev; simp add: on_event_def)+

lemma foldl_on_event_process [simp]:
  "spawned (foldl (on_event P cb) st evs) = spawned st"
  "stdin_ops (foldl (on_event P cb) st evs) = stdin_ops st"
  by (induction evs arbitrary: st) simp_all

lemma metadata_process:
  "spawned (metadata P opts evs) = spawned (metadata_tick opts)"
  "stdin_ops (metadata P opts evs) = stdin_ops (metadata_tick opts)"
  by (simp_all add: metadata_def Let_def)

lemma foldl_data_events:
  "list_all is_data evs \<Longrightarrow>
     foldl (on_event P cb) st evs =
       st\<lparr>exifdata := exifdata st @ stdout_of evs, exiferr := exiferr st @ stderr_of evs\<rparr>"
proof (induction evs arbitrary: st)
  case Nil
  then show ?case by simp
next
  case (Cons ev evs)
  then show ?case by (cases ev) (simp_all add: on_event_def)
qed

section \<open>The close handler\<close>

lemma on_close_success:
  assumes "P (exifdata st) = Some v" and "get_length v = Some l" and "promise st = Pending"
    and "returns cb None (if l = JNum 1 then get_index0 v else v)"
  shows "promise (on_close P cb c st) = Resolved (if l = JNum 1 then get_index0 v else v)"
    "cb_calls (on_close P cb c st) =
       cb_calls st @
       (case cb of None \<Rightarrow> [] | Some f \<Rightarrow> [(None, if l = JNum 1 then get_index0 v else v)])"
  using assms unfolding on_close_def Let_def case_prod_beta
  by (simp_all add: resolve_def)

lemma on_close_callback_threw:
  assumes "P (exifdata st) = Some v" and "get_length v = Some l"
    and "\<not> returns cb None (if l = JNum 1 then get_index0 v else v)"
  shows "on_close P cb c st =
           close_failed cb c
             (snd (tryCallback cb None (if l = JNum 1 then get_index0 v else v) st))"
  using assms unfolding on_close_def Let_def case_prod_beta
  by simp

lemma on_close_failure:
  assumes "P (exifdata st) = None \<or> (\<exists>v. P (exifdata st) = Some v \<and> get_length v = None)"
  shows "on_close P cb c st = close_failed cb c st"
  using assms unfolding on_close_def
  by auto

section \<open>The argument list and the run, by shape of the source\<close>

lemma tick_supported:
  assumes "truthy (source opts)" and "supported (source opts)"
  shows "metadata_tick opts =
       initial\<lparr>spawned :=
           [(case config opts of None \<Rightarrow> [] | Some c \<Rightarrow> [JStr ''-config'', JStr c]) @
            prepareTags (Some (default_to [] (tags opts))) @ JStr ''-j'' # source_args (source opts)],
         stdin_ops :=
           (case sync_input opts of None \<Rightarrow> [] | Some w \<Rightarrow> [Write w, End])\<rparr>"
  using assms unfolding metadata_tick_def Let_def initial_def sync_input_def
  by (cases "source opts"; cases "config opts") simp_all

lemma tick_falsy:
  assumes "\<not> truthy (source opts)"
  shows "metadata_tick opts =
       (if returns (callback opts) (Some shape_error) JUndefined
        then reject shape_error (snd (tryCallback (callback opts) (Some shape_error) JUndefined initial))
        else (snd (tryCallback (callback opts) (Some shape_error) JUndefined initial))
               \<lparr>uncaught := True\<rparr>)"
  using assms unfolding metadata_tick_def Let_def case_prod_beta shape_error_def
  by simp

lemma tick_unsupported:
  assumes "truthy (source opts)" and "\<not> supported (source opts)"
  shows "metadata_tick opts =
       (if returns (callback opts) (Some shape_error) JUndefined
        then (reject shape_error (snd (tryCallback (callback opts) (Some shape_error) JUndefined initial)))
               \<lparr>spawned :=
                  [(case config opts of None \<Rightarrow> [] | Some c \<Rightarrow> [JStr ''-config'', JStr c]) @
                   prepareTags (Some (default_to [] (tags opts))) @ [JStr ''-j'']]\<rparr>
        else (snd (tryCallback (callback opts) (Some shape_error) JUndefined initial))
               \<lparr>uncaught := True\<rparr>)"
  using assms unfolding metadata_tick_def Let_def case_prod_beta shape_error_def
  by (cases "source opts"; cases "config opts") (simp_all add: initial_def)

lemma spawned_tick_truthy:
  assumes "truthy (source opts)"
    and "supported (source opts) \<or> returns (callback opts) (Some shape_error) JUndefined"
  shows "spawned (metadata_tick opts) =
       [(case config opts of None \<Rightarrow> [] | Some c \<Rightarrow> [JStr ''-config'', JStr c]) @
        prepareTags (Some (default_to [] (tags opts))) @ JStr ''-j'' # source_args (source opts)]"
proof (cases "supported (source opts)")
  case True
  with assms(1) show ?thesis
    by (simp add: tick_supported initial_def)
next
  case False
  with assms(2) have r: "returns (callback opts) (Some shape_error) JUndefined"
    by simp
  from False have "source_args (source opts) = []"
    by (cases "source opts") simp_all
  with assms(1) False r show ?thesis
    by (simp add: tick_unsupported initial_def)
qed

lemma stdin_ops_tick:
  "stdin_ops (metadata_tick opts) =
     (case sync_input opts of None \<Rightarrow> [] | Some w \<Rightarrow> [Write w, End])"
proof -
  consider "\<not> truthy (source opts)" | "truthy (source opts)" "supported (source opts)"
    | "truthy (source opts)" "\<not> supported (source opts)"
    by blast
  then show ?thesis
  proof cases
    case 1
    then have "sync_input opts = None"
      by (cases "source opts") (simp_all add: sync_input_def)
    with 1 show ?thesis
      by (simp add: tick_falsy initial_def)
  next
    case 2
    then show ?thesis
      by (simp add: tick_supported initial_def)
  next
    case 3
    then have "sync_input opts = None"
      by (cases "source opts") (simp_all add: sync_input_def)
    with 3 show ?thesis
      by (simp add: tick_unsupported initial_def)
  qed
qed

lemma tick_supported_fresh:
  assumes "truthy (source opts)" and "supported (source opts)"
  shows "promise (metadata_tick opts) = Pending" "cb_calls (metadata_tick opts) = []"
    "uncaught (metadata_tick opts) = False" "spawned (metadata_tick opts) \<noteq> []"
  using assms by (simp_all add: tick_supported initial_def)

lemma tick_accumulators:
  "exifdata (metadata_tick opts) = []" "exiferr (metadata_tick opts) = []"
proof -
  consider "\<not> truthy (source opts)" | "truthy (source opts)" "supported (source opts)"
    | "truthy (source opts)" "\<not> supported (source opts)"
    by blast
  then have "exifdata (metadata_tick opts) = [] \<and> exiferr (metadata_tick opts) = []"
    by cases (simp_all add: tick_falsy tick_unsupported tick_supported initial_def)
  then show "exifdata (metadata_tick opts) = []" "exiferr (metadata_tick opts) = []"
    by simp_all
qed

lemma metadata_run_to_close:
  assumes "spawned (metadata_tick opts) \<noteq> []" and "list_all is_data evs"
  shows "metadata P opts (evs @ [Close c]) =
           on_close P (callback opts) c
             ((metadata_tick opts)\<lparr>exifdata := stdout_of evs, exiferr := stderr_of evs\<rparr>)"
  using assms
  by (simp add: metadata_def Let_def foldl_data_events tick_accumulators on_event_def)

lemma metadataSync_falsy:
  "\<not> truthy (source opts) \<Longrightarrow>
     metadataSync P S opts =
       \<lparr>outcome = Inl (new_Error Error ''Undefined \"source\"''), invoked = [], exifparams = []\<rparr>"
  by (simp add: metadataSync_def)

lemma metadataSync_JStr:
  "source opts = JStr s \<Longrightarrow> s \<noteq> [] \<Longrightarrow>
     metadataSync P S opts =
       \<lparr>outcome = sync_result P (S (prepareTags (tags opts) @ [JStr ''-j'', JStr s]) None),
        invoked = [(prepareTags (tags opts) @ [JStr ''-j'', JStr s], None)],
        exifparams = (case config opts of None \<Rightarrow> [] | Some c \<Rightarrow> [JStr ''-config'', JStr c]) @
                      prepareTags (tags opts) @ [JStr ''-j'', JStr s]\<rparr>"
  unfolding metadataSync_def sync_result_def Let_def
  by (simp split: option.split)

lemma metadataSync_JArr:
  "source opts = JArr xs \<Longrightarrow>
     metadataSync P S opts =
       \<lparr>outcome = sync_result P (S (prepareTags (tags opts) @ JStr ''-j'' # xs) None),
        invoked = [(prepareTags (tags opts) @ JStr ''-j'' # xs, None)],
        exifparams = (case config opts of None \<Rightarrow> [] | Some c \<Rightarrow> [JStr ''-config'', JStr c]) @
                      prepareTags (tags opts) @ JStr ''-j'' # xs\<rparr>"
  unfolding metadataSync_def sync_result_def Let_def
  by (simp split: option.split)

lemma metadataSync_JBuf:
  "source opts = JBuf b \<Longrightarrow>
     metadataSync P S opts =
       \<lparr>outcome = sync_result P (S (prepareTags (tags opts) @ [JStr ''-j'', JStr ''-'']) (sync_input opts)),
        invoked = [(prepareTags (tags opts) @ [JStr ''-j'', JStr ''-''], sync_input opts)],
        exifparams = (case config opts of None \<Rightarrow> [] | Some c \<Rightarrow> [JStr ''-config'', JStr c]) @
                      prepareTags (tags opts) @ [JStr ''-j'', JStr ''-'']\<rparr>"
  unfolding metadataSync_def sync_result_def sync_input_def Let_def
  by (simp split: option.split)

lemma metadataSync_supported:
  assumes "truthy (source opts)" and "supported (source opts)"
  shows "metadataSync P S opts =
       \<lparr>outcome = sync_result P
                    (S (prepareTags (tags opts) @ JStr ''-j'' # source_args (source opts))
                       (sync_input opts)),
        invoked = [(prepareTags (tags opts) @ JStr ''-j'' # source_args (source opts),
                    sync_input opts)],
        exifparams = (case config opts of None \<Rightarrow> [] | Some c \<Rightarrow> [JStr ''-config'', JStr c]) @
                      prepareTags (tags opts) @ JStr ''-j'' # source_args (source opts)\<rparr>"
proof (cases "source opts")
  case (JStr s)
  with assms have "s \<noteq> []" by simp
  with JStr show ?thesis
    by (simp add: metadataSync_JStr sync_input_def)
next
  case (JArr xs)
  then show ?thesis
    by (simp add: metadataSync_JArr sync_input_def)
next
  case (JBuf b)
  then show ?thesis
    by (simp add: metadataSync_JBuf)
qed (use assms in simp_all)

lemma metadataSync_unsupported:
  assumes "truthy (source opts)" and "\<not> supported (source opts)"
  shows "metadataSync P S opts =
       \<lparr>outcome = Inl (new_Error TypeError ''\"source\" must be a string, [string] or Buffer''),
        invoked = [],
        exifparams = prepareTags (tags opts) @ [JStr ''-j'']\<rparr>"
  using assms unfolding metadataSync_def Let_def
  by (cases "source opts") simp_all

lemma sync_input_update [simp]:
  "sync_input (opts\<lparr>config := c\<rparr>) = sync_input opts"
  "sync_input (opts\<lparr>tags := t\<rparr>) = sync_input opts"
  by (simp_all add: sync_input_def split: jsval.split)

lemma metadataSync_config_irrelevant:
  "invoked (metadataSync P S (opts\<lparr>config := c\<rparr>)) = invoked (metadataSync P S opts)"
  "outcome (metadataSync P S (opts\<lparr>config := c\<rparr>)) = outcome (metadataSync P S opts)"
proof -
  consider "\<not> truthy (source opts)" | "truthy (source opts)" "supported (source opts)"
    | "truthy (source opts)" "\<not> supported (source opts)"
    by blast
  then have "invoked (metadataSync P S (opts\<lparr>config := c\<rparr>)) = invoked (metadataSync P S opts) \<and>
             outcome (metadataSync P S (opts\<lparr>config := c\<rparr>)) = outcome (metadataSync P S opts)"
    by cases (simp_all add: metadataSync_falsy metadataSync_supported metadataSync_unsupported)
  then show "invoked (metadataSync P S (opts\<lparr>config := c\<rparr>)) = invoked (metadataSync P S opts)"
    and "outcome (metadataSync P S (opts\<lparr>config := c\<rparr>)) = outcome (metadataSync P S opts)"
    by simp_all
qed

section \<open>Omitted tags in the synchronous form\<close>

text \<open>
  Claim C10. \<^verbatim>\<open>prepareTags\<close> maps an absent tag list to no arguments and raises nothing;
  a call of \<^verbatim>\<open>metadataSync\<close> without \<^verbatim>\<open>tags\<close> is the call with \<^verbatim>\<open>tags: []\<close>, and
  the argument list the process receives begins with \<^verbatim>\<open>-j\<close>.
\<close>

theorem metadataSync_tags_omitted:
  "prepareTags None = [] \<and>
   metadataSync P S (opts\<lparr>tags := None\<rparr>) = metadataSync P S (opts\<lparr>tags := Some []\<rparr>) \<and>
   (truthy (source opts) \<and> supported (source opts) \<longrightarrow>
      (\<exists>inp. invoked (metadataSync P S (opts\<lparr>tags := None\<rparr>)) =
               [(JStr ''-j'' # source_args (source opts), inp)]))"
proof -
  have tags: "prepareTags None = prepareTags (Some [])"
    by (simp add: prepareTags_def)
  consider "\<not> truthy (source opts)" | "truthy (source opts)" "supported (source opts)"
    | "truthy (source opts)" "\<not> supported (source opts)"
    by blast
  then have same: "metadataSync P S (opts\<lparr>tags := None\<rparr>) = metadataSync P S (opts\<lparr>tags := Some []\<rparr>)"
    by cases (simp_all add: metadataSync_falsy metadataSync_supported metadataSync_unsupported tags)
  have "invoked (metadataSync P S (opts\<lparr>tags := None\<rparr>)) =
               [(JStr ''-j'' # source_args (source opts), sync_input opts)]"
    if "truthy (source opts)" "supported (source opts)"
    using that by (simp add: metadataSync_supported prepareTags_def)
  with same show ?thesis
    by (simp add: prepareTags_def)
qed

theorem metadataSync_tags_omitted_witness:
  "truthy (source sample_opts) \<and> supported (source sample_opts) \<and>
   invoked (metadataSync sample_parse (process_printing ''[{}]'' [] (Some 0))
              (sample_opts\<lparr>tags := None\<rparr>)) =
     [([JStr ''-j'', JStr ''a.jpg''], None)] \<and>
   metadataSync sample_parse (process_printing ''[{}]'' [] (Some 0)) (sample_opts\<lparr>tags := None\<rparr>) =
     metadataSync sample_parse (process_printing ''[{}]'' [] (Some 0)) (sample_opts\<lparr>tags := Some []\<rparr>)"
proof -
  have src: "source sample_opts = JStr ''a.jpg''"
    by (simp add: sample_opts_def)
  have "invoked (metadataSync sample_parse (process_printing ''[{}]'' [] (Some 0))
              (sample_opts\<lparr>tags := None\<rparr>)) =
     [([JStr ''-j'', JStr ''a.jpg''], None)]"
    by (simp add: metadataSync_JStr src prepareTags_def)
  then show ?thesis
    using metadataSync_tags_omitted
          [where P = sample_parse and S = "process_printing ''[{}]'' [] (Some 0)"
             and opts = sample_opts]
    by (simp add: src)
qed

section \<open>The custom configuration in the synchronous form\<close>

text \<open>
  Claim C5. In \<^verbatim>\<open>metadataSync\<close> the process has been invoked before \<^verbatim>\<open>-config\<close> and the
  path are put in front of \<^verbatim>\<open>exifparams\<close>: the argument list the process receives and
  the outcome of the call are those of the call without \<^verbatim>\<open>config\<close>, and the two
  arguments stand only in the list as it is left behind.
\<close>

theorem metadataSync_config_after_spawn:
  "invoked (metadataSync P S (opts\<lparr>config := Some c\<rparr>)) =
     invoked (metadataSync P S (opts\<lparr>config := None\<rparr>)) \<and>
   outcome (metadataSync P S (opts\<lparr>config := Some c\<rparr>)) =
     outcome (metadataSync P S (opts\<lparr>config := None\<rparr>)) \<and>
   (truthy (source opts) \<and> supported (source opts) \<longrightarrow>
      (\<exists>inp. invoked (metadataSync P S (opts\<lparr>config := Some c\<rparr>)) =
               [(prepareTags (tags opts) @ JStr ''-j'' # source_args (source opts), inp)]) \<and>
      exifparams (metadataSync P S (opts\<lparr>config := Some c\<rparr>)) =
        JStr ''-config'' # JStr c # prepareTags (tags opts) @ JStr ''-j'' # source_args (source opts))"
proof -
  have "invoked (metadataSync P S (opts\<lparr>config := Some c\<rparr>)) =
          [(prepareTags (tags opts) @ JStr ''-j'' # source_args (source opts), sync_input opts)] \<and>
        exifparams (metadataSync P S (opts\<lparr>config := Some c\<rparr>)) =
          JStr ''-config'' # JStr c # prepareTags (tags opts) @ JStr ''-j'' # source_args (source opts)"
    if "truthy (source opts)" "supported (source opts)"
    using that by (simp add: metadataSync_supported)
  then show ?thesis
    by (auto simp add: metadataSync_config_irrelevant)
qed

theorem metadataSync_config_after_spawn_witness:
  "truthy (source sample_opts) \<and> supported (source sample_opts) \<and>
   (\<exists>inp. invoked (metadataSync sample_parse (process_printing ''[{}]'' [] (Some 0)) sample_opts) =
     [([JStr ''-Model'', JStr ''--ThumbnailImage'', JStr ''-j'', JStr ''a.jpg''], inp)]) \<and>
   exifparams (metadataSync sample_parse (process_printing ''[{}]'' [] (Some 0)) sample_opts) =
     [JStr ''-config'', JStr ''my.cfg'', JStr ''-Model'', JStr ''--ThumbnailImage'', JStr ''-j'',
      JStr ''a.jpg'']"
proof -
  have upd: "sample_opts\<lparr>config := Some ''my.cfg''\<rparr> = sample_opts"
    by (simp add: sample_opts_def)
  have src: "source sample_opts = JStr ''a.jpg''"
    and tgs: "tags sample_opts = Some [''Model'', ''-ThumbnailImage'']"
    by (simp_all add: sample_opts_def)
  show ?thesis
    using metadataSync_config_after_spawn
          [where P = sample_parse and S = "process_printing ''[{}]'' [] (Some 0)"
             and opts = sample_opts and c = "''my.cfg''", THEN conjunct2, THEN conjunct2]
    unfolding upd by (simp add: src tgs prepareTags_def)
qed

section \<open>Tag arguments\<close>

text \<open>
  Claim C8. Every tag of the filter list becomes one argument, the tag with a single
  \<^verbatim>\<open>-\<close> in front, in the order of the list, and these arguments stand directly before
  \<^verbatim>\<open>-j\<close> in the argument list of both forms; the list \<^verbatim>\<open>["Model", "-ThumbnailImage"]\<close>
  gives \<^verbatim>\<open>-Model\<close> and \<^verbatim>\<open>--ThumbnailImage\<close>.
\<close>

theorem tag_arguments_before_json_flag:
  "prepareTags (Some ts) = map (\<lambda>t. JStr (CHR ''-'' # t)) ts \<and>
   (tags opts = Some ts \<and> truthy (source opts) \<and>
    (supported (source opts) \<or> returns (callback opts) (Some shape_error) JUndefined) \<longrightarrow>
      spawned (metadata P opts evs) =
        [(case config opts of None \<Rightarrow> [] | Some c \<Rightarrow> [JStr ''-config'', JStr c]) @
         map (\<lambda>t. JStr (CHR ''-'' # t)) ts @ JStr ''-j'' # source_args (source opts)]) \<and>
   (tags opts = Some ts \<and> truthy (source opts) \<and> supported (source opts) \<longrightarrow>
      (\<exists>inp. invoked (metadataSync P S opts) =
         [(map (\<lambda>t. JStr (CHR ''-'' # t)) ts @ JStr ''-j'' # source_args (source opts), inp)])) \<and>
   prepareTags (Some [''Model'', ''-ThumbnailImage'']) = [JStr ''-Model'', JStr ''--ThumbnailImage'']"
proof -
  have tags: "prepareTags (Some us) = map (\<lambda>t. JStr (CHR ''-'' # t)) us" for us
    by (simp add: prepareTags_def)
  have async: "spawned (metadata P opts evs) =
        [(case config opts of None \<Rightarrow> [] | Some c \<Rightarrow> [JStr ''-config'', JStr c]) @
         map (\<lambda>t. JStr (CHR ''-'' # t)) ts @ JStr ''-j'' # source_args (source opts)]"
    if "tags opts = Some ts" "truthy (source opts)"
      "supported (source opts) \<or> returns (callback opts) (Some shape_error) JUndefined"
    using that(1) by (simp add: metadata_process spawned_tick_truthy [OF that(2,3)] default_to_def tags)
  have sync: "invoked (metadataSync P S opts) =
         [(map (\<lambda>t. JStr (CHR ''-'' # t)) ts @ JStr ''-j'' # source_args (source opts),
           sync_input opts)]"
    if "tags opts = Some ts" "truthy (source opts)" "supported (source opts)"
    using that by (simp add: metadataSync_supported tags)
  from async sync show ?thesis
    by (simp add: tags)
qed

theorem tag_arguments_before_json_flag_witness:
  "tags sample_opts = Some [''Model'', ''-ThumbnailImage''] \<and>
   truthy (source sample_opts) \<and> supported (source sample_opts) \<and>
   spawned (metadata sample_parse sample_opts [StdoutData ''[{}]'', Close (Some 0)]) =
     [[JStr ''-config'', JStr ''my.cfg'', JStr ''-Model'', JStr ''--ThumbnailImage'', JStr ''-j'',
       JStr ''a.jpg'']] \<and>
   (\<exists>inp. invoked (metadataSync sample_parse (process_printing ''[{}]'' [] (Some 0)) sample_opts) =
     [([JStr ''-Model'', JStr ''--ThumbnailImage'', JStr ''-j'', JStr ''a.jpg''], inp)])"
proof -
  have src: "source sample_opts = JStr ''a.jpg''"
    and tgs: "tags sample_opts = Some [''Model'', ''-ThumbnailImage'']"
    and cfg: "config sample_opts = Some ''my.cfg''"
    by (simp_all add: sample_opts_def)
  show ?thesis
    using tag_arguments_before_json_flag
          [where P = sample_parse and S = "process_printing ''[{}]'' [] (Some 0)"
             and opts = sample_opts and ts = "[''Model'', ''-ThumbnailImage'']"
             and evs = "[StdoutData ''[{}]'', Close (Some 0)]"]
    by (simp add: src tgs cfg)
qed

section \<open>What is written to the input stream\<close>

lemma slice_nonneg:
  "0 \<le> n \<Longrightarrow> slice b 0 n = take (nat n) b"
  by (auto simp add: slice_def adjustOffset_def Let_def)

lemma slice_limit:
  "0 \<le> n \<Longrightarrow> int (length (slice b 0 n)) \<le> n"
  by (simp add: slice_nonneg)

lemma slice_negative:
  "n < 0 \<Longrightarrow> slice b 0 n = take (length b - nat (- n)) b"
proof -
  assume "n < 0"
  then have "nat (n + int (length b)) = length b - nat (- n)"
    by linarith
  with \<open>n < 0\<close> show ?thesis
    by (simp add: slice_def adjustOffset_def Let_def)
qed

lemma invoked_inputs:
  "map snd (invoked (metadataSync P S opts)) =
     (if truthy (source opts) \<and> supported (source opts) then [sync_input opts] else [])"
proof -
  consider "\<not> truthy (source opts)" | "truthy (source opts)" "supported (source opts)"
    | "truthy (source opts)" "\<not> supported (source opts)"
    by blast
  then show ?thesis
    by cases (simp_all add: metadataSync_falsy metadataSync_supported metadataSync_unsupported)
qed

text \<open>
  Claim C7, amended. For a buffer source both forms hand one buffer to the input stream of
  the process and close it (\<^verbatim>\<open>write\<close> then \<^verbatim>\<open>end\<close>; the \<^verbatim>\<open>input\<close> option of
  \<^verbatim>\<open>spawnSync\<close>). With \<^verbatim>\<open>useBufferLimit\<close> on and \<^verbatim>\<open>maxBufferSize\<close> not below zero that
  buffer is the first \<^verbatim>\<open>maxBufferSize\<close> bytes, so at most that many; with the limit off
  it is the whole buffer. For any other source nothing is written.
\<close>

theorem buffer_written_to_stdin:
  "(source opts = JBuf b \<longrightarrow>
      (\<exists>w. stdin_ops (metadata P opts evs) = [Write w, End] \<and>
           map snd (invoked (metadataSync P S opts)) = [Some w] \<and>
           (default_to True (useBufferLimit opts) \<and> 0 \<le> default_to 10000 (maxBufferSize opts) \<longrightarrow>
              w = take (nat (default_to 10000 (maxBufferSize opts))) b \<and>
              int (length w) \<le> default_to 10000 (maxBufferSize opts)) \<and>
           (\<not> default_to True (useBufferLimit opts) \<longrightarrow> w = b))) \<and>
   ((\<forall>b. source opts \<noteq> JBuf b) \<longrightarrow>
      stdin_ops (metadata P opts evs) = [] \<and>
      (\<forall>call \<in> set (invoked (metadataSync P S opts)). snd call = None))"
proof (intro conjI impI)
  assume src: "source opts = JBuf b"
  let ?n = "default_to 10000 (maxBufferSize opts)"
  let ?w = "if default_to True (useBufferLimit opts) then slice b 0 ?n else b"
  from src have inp: "sync_input opts = Some ?w"
    by (simp add: sync_input_def)
  have a: "stdin_ops (metadata P opts evs) = [Write ?w, End]"
    by (simp add: metadata_process stdin_ops_tick inp)
  from src have s: "map snd (invoked (metadataSync P S opts)) = [Some ?w]"
    by (simp add: invoked_inputs inp)
  have l: "default_to True (useBufferLimit opts) \<and> 0 \<le> ?n \<longrightarrow>
             ?w = take (nat ?n) b \<and> int (length ?w) \<le> ?n"
  proof (intro impI, elim conjE)
    assume "default_to True (useBufferLimit opts)" and "0 \<le> ?n"
    then show "?w = take (nat ?n) b \<and> int (length ?w) \<le> ?n"
      using slice_nonneg [of ?n b] slice_limit [of ?n b] by simp
  qed
  have u: "\<not> default_to True (useBufferLimit opts) \<longrightarrow> ?w = b"
    by simp
  show "\<exists>w. stdin_ops (metadata P opts evs) = [Write w, End] \<and>
           map snd (invoked (metadataSync P S opts)) = [Some w] \<and>
           (default_to True (useBufferLimit opts) \<and> 0 \<le> default_to 10000 (maxBufferSize opts) \<longrightarrow>
              w = take (nat (default_to 10000 (maxBufferSize opts))) b \<and>
              int (length w) \<le> default_to 10000 (maxBufferSize opts)) \<and>
           (\<not> default_to True (useBufferLimit opts) \<longrightarrow> w = b)"
    by (rule exI [of _ ?w]) (intro conjI a s l u)
next
  assume nb: "\<forall>b. source opts \<noteq> JBuf b"
  then have inp: "sync_input opts = None"
    by (cases "source opts") (simp_all add: sync_input_def)
  show "stdin_ops (metadata P opts evs) = []"
    by (simp add: metadata_process stdin_ops_tick inp)
  have "set (map snd (invoked (metadataSync P S opts))) \<subseteq> {None}"
    by (auto simp add: invoked_inputs inp)
  then show "\<forall>call \<in> set (invoked (metadataSync P S opts)). snd call = None"
    by auto
qed

theorem buffer_written_to_stdin_witness:
  "source (buffer_opts 2) = JBuf [1, 2, 3] \<and>
   default_to True (useBufferLimit (buffer_opts 2)) \<and>
   0 \<le> default_to 10000 (maxBufferSize (buffer_opts 2)) \<and>
   stdin_ops (metadata sample_parse (buffer_opts 2) [StdoutData ''[{}]'', Close (Some 0)]) =
     [Write [1, 2], End] \<and>
   map snd (invoked (metadataSync sample_parse (process_printing ''[{}]'' [] (Some 0)) (buffer_opts 2))) =
     [Some [1, 2]] \<and>
   source ((buffer_opts 2)\<lparr>useBufferLimit := Some False\<rparr>) = JBuf [1, 2, 3] \<and>
   \<not> default_to True (useBufferLimit ((buffer_opts 2)\<lparr>useBufferLimit := Some False\<rparr>)) \<and>
   stdin_ops (metadata sample_parse ((buffer_opts 2)\<lparr>useBufferLimit := Some False\<rparr>)
                [StdoutData ''[{}]'', Close (Some 0)]) =
     [Write [1, 2, 3], End] \<and>
   (\<forall>b. source sample_opts \<noteq> JBuf b) \<and>
   stdin_ops (metadata sample_parse sample_opts [StdoutData ''[{}]'', Close (Some 0)]) = [] \<and>
   map snd (invoked (metadataSync sample_parse (process_printing ''[{}]'' [] (Some 0)) sample_opts)) =
     [None]"
proof -
  let ?off = "(buffer_opts 2)\<lparr>useBufferLimit := Some False\<rparr>"
  have b: "source (buffer_opts 2) = JBuf [1, 2, 3]"
    "useBufferLimit (buffer_opts 2) = Some True" "maxBufferSize (buffer_opts 2) = Some 2"
    by (simp_all add: buffer_opts_def)
  have u: "source ?off = JBuf [1, 2, 3]" "useBufferLimit ?off = Some False"
    by (simp_all add: buffer_opts_def)
  have s: "source sample_opts = JStr ''a.jpg''"
    by (simp add: sample_opts_def)
  have n: "map snd (invoked (metadataSync sample_parse (process_printing ''[{}]'' [] (Some 0)) sample_opts)) =
     [None]"
    by (simp add: invoked_inputs s sync_input_def)
  have 1: "stdin_ops (metadata sample_parse (buffer_opts 2) [StdoutData ''[{}]'', Close (Some 0)]) =
             [Write [1, 2], End] \<and>
           map snd (invoked (metadataSync sample_parse (process_printing ''[{}]'' [] (Some 0))
                      (buffer_opts 2))) = [Some [1, 2]]"
    using buffer_written_to_stdin
            [where P = sample_parse and S = "process_printing ''[{}]'' [] (Some 0)"
               and opts = "buffer_opts 2" and b = "[1, 2, 3]"
               and evs = "[StdoutData ''[{}]'', Close (Some 0)]", THEN conjunct1]
    by (simp add: b default_to_def)
  have 2: "stdin_ops (metadata sample_parse ?off [StdoutData ''[{}]'', Close (Some 0)]) =
             [Write [1, 2, 3], End]"
    using buffer_written_to_stdin
            [where P = sample_parse and S = "process_printing ''[{}]'' [] (Some 0)"
               and opts = ?off and b = "[1, 2, 3]"
               and evs = "[StdoutData ''[{}]'', Close (Some 0)]", THEN conjunct1]
    by (simp add: u default_to_def)
  have 3: "stdin_ops (metadata sample_parse sample_opts [StdoutData ''[{}]'', Close (Some 0)]) = []"
    using buffer_written_to_stdin
            [where P = sample_parse and S = "process_printing ''[{}]'' [] (Some 0)"
               and opts = sample_opts and evs = "[StdoutData ''[{}]'', Close (Some 0)]",
             THEN conjunct2]
    by (simp add: s)
  from 1 2 3 n show ?thesis
    by (simp add: b u s default_to_def)
qed

text \<open>
  The claim as stated fails for a limit below zero: \<^verbatim>\<open>slice(0, -1)\<close> keeps all bytes but
  the last, here two bytes against a limit of \<open>-1\<close>.
\<close>

theorem buffer_limit_negative_counterexample:
  "\<not> (\<forall>opts b n w evs.
        source opts = JBuf b \<and> useBufferLimit opts = Some True \<and> maxBufferSize opts = Some n \<and>
        Write w \<in> set (stdin_ops (metadata sample_parse opts evs)) \<longrightarrow> int (length w) \<le> n)"
proof
  assume claim: "\<forall>opts b n w evs.
        source opts = JBuf b \<and> useBufferLimit opts = Some True \<and> maxBufferSize opts = Some n \<and>
        Write w \<in> set (stdin_ops (metadata sample_parse opts evs)) \<longrightarrow> int (length w) \<le> n"
  have "stdin_ops (metadata sample_parse (buffer_opts (- 1)) []) = [Write [1, 2], End]"
    by (simp add: metadata_process stdin_ops_tick sync_input_def buffer_opts_def default_to_def
          slice_negative)
  then have "Write [1, 2] \<in> set (stdin_ops (metadata sample_parse (buffer_opts (- 1)) []))"
    by simp
  moreover have "source (buffer_opts (- 1)) = JBuf [1, 2, 3]"
    "useBufferLimit (buffer_opts (- 1)) = Some True" "maxBufferSize (buffer_opts (- 1)) = Some (- 1)"
    by (simp_all add: buffer_opts_def)
  ultimately have "int (length [1, 2 :: byte]) \<le> - 1"
    using claim [rule_format, of "buffer_opts (- 1)" "[1, 2, 3]" "- 1" "[1, 2]" "[]"] by simp
  then show False by simp
qed

section \<open>The result of a run that closes\<close>

lemma metadataSync_outcome_of_invoked:
  assumes "invoked (metadataSync P S opts) = [(args, inp)]"
  shows "outcome (metadataSync P S opts) = sync_result P (S args inp)"
proof -
  consider "\<not> truthy (source opts)" | "truthy (source opts)" "supported (source opts)"
    | "truthy (source opts)" "\<not> supported (source opts)"
    by blast
  then show ?thesis
  proof cases
    case 1
    with assms show ?thesis by (simp add: metadataSync_falsy)
  next
    case 2
    with assms show ?thesis by (simp add: metadataSync_supported)
  next
    case 3
    with assms show ?thesis by (simp add: metadataSync_unsupported)
  qed
qed

lemma sync_result_success:
  "P (et_stdout r) = Some v \<Longrightarrow> get_length v = Some l \<Longrightarrow>
     sync_result P r = Inr (if l = JNum 1 then get_index0 v else v)"
  by (simp add: sync_result_def)

lemma sync_result_failure:
  "P (et_stdout r) = None \<or> (\<exists>v. P (et_stdout r) = Some v \<and> get_length v = None) \<Longrightarrow>
     sync_result P r =
       Inl \<lparr>kind = Error, message = ''Could not parse data returned by ExifTool'',
            stderr = None, stdout = None, code = None,
            commandlog = Some (et_stdout r, et_stderr r)\<rparr>"
  by (auto simp add: sync_result_def new_Error_def)

lemma unwrap_array:
  "(if JNum (int (length xs)) = JNum 1 then get_index0 (JArr xs) else JArr xs) =
     (case xs of [x] \<Rightarrow> x | _ \<Rightarrow> JArr xs)"
proof (cases xs)
  case Nil
  then show ?thesis by simp
next
  case (Cons x ys)
  then show ?thesis by (cases ys) simp_all
qed

lemma metadata_closed:
  assumes "truthy (source opts)" and "supported (source opts)" and "list_all is_data evs"
  shows "metadata P opts (evs @ [Close c]) =
           on_close P (callback opts) c
             ((metadata_tick opts)\<lparr>exifdata := stdout_of evs, exiferr := stderr_of evs\<rparr>)"
  using assms by (simp add: metadata_run_to_close tick_supported_fresh)

lemma metadata_success:
  assumes "truthy (source opts)" and "supported (source opts)" and "list_all is_data evs"
    and "P (stdout_of evs) = Some v" and "get_length v = Some l"
    and "returns (callback opts) None (if l = JNum 1 then get_index0 v else v)"
  shows "promise (metadata P opts (evs @ [Close c])) =
           Resolved (if l = JNum 1 then get_index0 v else v)"
    and "cb_calls (metadata P opts (evs @ [Close c])) =
           (case callback opts of None \<Rightarrow> []
            | Some f \<Rightarrow> [(None, if l = JNum 1 then get_index0 v else v)])"
proof -
  let ?st = "(metadata_tick opts)\<lparr>exifdata := stdout_of evs, exiferr := stderr_of evs\<rparr>"
  have run: "metadata P opts (evs @ [Close c]) = on_close P (callback opts) c ?st"
    using assms(1-3) by (rule metadata_closed)
  have st: "P (exifdata ?st) = Some v" "promise ?st = Pending" "cb_calls ?st = []"
    using assms by (simp_all add: tick_supported_fresh)
  show "promise (metadata P opts (evs @ [Close c])) =
           Resolved (if l = JNum 1 then get_index0 v else v)"
    unfolding run using st(1) assms(5) st(2) assms(6) by (rule on_close_success(1))
  have "cb_calls (on_close P (callback opts) c ?st) =
          cb_calls ?st @
          (case callback opts of None \<Rightarrow> []
           | Some f \<Rightarrow> [(None, if l = JNum 1 then get_index0 v else v)])"
    using st(1) assms(5) st(2) assms(6) by (rule on_close_success(2))
  then show "cb_calls (metadata P opts (evs @ [Close c])) =
           (case callback opts of None \<Rightarrow> []
            | Some f \<Rightarrow> [(None, if l = JNum 1 then get_index0 v else v)])"
    unfolding run by (simp only: st(3) append_Nil)
qed

lemma metadata_failure:
  assumes "truthy (source opts)" and "supported (source opts)" and "list_all is_data evs"
    and "P (stdout_of evs) = None \<or> (\<exists>v. P (stdout_of evs) = Some v \<and> get_length v = None)"
  shows "promise (metadata P opts (evs @ [Close c])) =
           (if returns (callback opts) (Some (close_error c (stdout_of evs) (stderr_of evs))) JUndefined
            then Rejected (close_error c (stdout_of evs) (stderr_of evs)) else Pending)"
    and "cb_calls (metadata P opts (evs @ [Close c])) =
           (case callback opts of None \<Rightarrow> []
            | Some f \<Rightarrow> [(Some (close_error c (stdout_of evs) (stderr_of evs)), JUndefined)])"
proof -
  let ?st = "(metadata_tick opts)\<lparr>exifdata := stdout_of evs, exiferr := stderr_of evs\<rparr>"
  have "metadata P opts (evs @ [Close c]) = on_close P (callback opts) c ?st"
    using assms(1-3) by (rule metadata_closed)
  moreover have "on_close P (callback opts) c ?st = close_failed (callback opts) c ?st"
    by (rule on_close_failure) (use assms(4) in simp)
  ultimately have run: "metadata P opts (evs @ [Close c]) = close_failed (callback opts) c ?st"
    by simp
  have flds: "promise ?st = Pending" "cb_calls ?st = []" "exifdata ?st = stdout_of evs"
    "exiferr ?st = stderr_of evs"
    using assms by (simp_all add: tick_supported_fresh)
  show "promise (metadata P opts (evs @ [Close c])) =
           (if returns (callback opts) (Some (close_error c (stdout_of evs) (stderr_of evs))) JUndefined
            then Rejected (close_error c (stdout_of evs) (stderr_of evs)) else Pending)"
    unfolding run close_failed_promise by (simp only: flds simp_thms)
  show "cb_calls (metadata P opts (evs @ [Close c])) =
           (case callback opts of None \<Rightarrow> []
            | Some f \<Rightarrow> [(Some (close_error c (stdout_of evs) (stderr_of evs)), JUndefined)])"
    unfolding run close_failed_calls by (simp only: flds append_Nil)
qed

lemma metadata_callback_threw:
  assumes "truthy (source opts)" and "supported (source opts)" and "list_all is_data evs"
    and "P (stdout_of evs) = Some v" and "get_length v = Some l"
    and "\<not> returns (callback opts) None (if l = JNum 1 then get_index0 v else v)"
  shows "promise (metadata P opts (evs @ [Close c])) =
           (if returns (callback opts) (Some (close_error c (stdout_of evs) (stderr_of evs))) JUndefined
            then Rejected (close_error c (stdout_of evs) (stderr_of evs)) else Pending)"
    and "cb_calls (metadata P opts (evs @ [Close c])) =
           (case callback opts of None \<Rightarrow> []
            | Some f \<Rightarrow> [(None, if l = JNum 1 then get_index0 v else v),
                          (Some (close_error c (stdout_of evs) (stderr_of evs)), JUndefined)])"
proof -
  let ?st = "(metadata_tick opts)\<lparr>exifdata := stdout_of evs, exiferr := stderr_of evs\<rparr>"
  let ?st1 = "snd (tryCallback (callback opts) None (if l = JNum 1 then get_index0 v else v) ?st)"
  have "metadata P opts (evs @ [Close c]) = on_close P (callback opts) c ?st"
    using assms(1-3) by (rule metadata_closed)
  moreover have "on_close P (callback opts) c ?st = close_failed (callback opts) c ?st1"
    by (rule on_close_callback_threw) (use assms in simp_all)
  ultimately have run: "metadata P opts (evs @ [Close c]) = close_failed (callback opts) c ?st1"
    by simp
  have flds: "promise ?st1 = Pending" "exifdata ?st1 = stdout_of evs" "exiferr ?st1 = stderr_of evs"
    using assms by (simp_all add: tick_supported_fresh)
  have calls: "cb_calls ?st1 =
      (case callback opts of None \<Rightarrow> []
       | Some f \<Rightarrow> [(None, if l = JNum 1 then get_index0 v else v)])"
    using assms by (simp add: tick_supported_fresh)
  show "promise (metadata P opts (evs @ [Close c])) =
           (if returns (callback opts) (Some (close_error c (stdout_of evs) (stderr_of evs))) JUndefined
            then Rejected (close_error c (stdout_of evs) (stderr_of evs)) else Pending)"
    unfolding run close_failed_promise by (simp only: flds simp_thms)
  show "cb_calls (metadata P opts (evs @ [Close c])) =
           (case callback opts of None \<Rightarrow> []
            | Some f \<Rightarrow> [(None, if l = JNum 1 then get_index0 v else v),
                          (Some (close_error c (stdout_of evs) (stderr_of evs)), JUndefined)])"
    unfolding run close_failed_calls flds calls by (cases "callback opts") simp_all
qed


section \<open>A source of another type\<close>

text \<open>
  Claim C4. The asynchronous form rejects a source that is a number with the TypeError,
  but goes on after \<^verbatim>\<open>reject(error)\<close>: it starts the process with the arguments built
  so far, and the \<^verbatim>\<open>close\<close> handler calls the callback a second time. The synchronous
  form throws the TypeError and starts nothing.
\<close>

theorem wrong_shape_still_spawns:
  "truthy (source number_opts) \<and> \<not> supported (source number_opts) \<and>
   promise (metadata sample_parse number_opts [StdoutData ''[{}]'', Close (Some 0)]) =
     Rejected shape_error \<and>
   kind shape_error = TypeError \<and>
   spawned (metadata sample_parse number_opts [StdoutData ''[{}]'', Close (Some 0)]) =
     [[JStr ''-j'']] \<and>
   cb_calls (metadata sample_parse number_opts [StdoutData ''[{}]'', Close (Some 0)]) =
     [(Some shape_error, JUndefined), (None, JObj [])] \<and>
   outcome (metadataSync sample_parse (process_printing ''[{}]'' [] (Some 0)) number_opts) =
     Inl shape_error \<and>
   invoked (metadataSync sample_parse (process_printing ''[{}]'' [] (Some 0)) number_opts) = []"
proof -
  let ?evs = "[StdoutData ''[{}]'']"
  have src: "truthy (source number_opts)" "\<not> supported (source number_opts)"
    by (simp_all add: number_opts_def)
  have o: "callback number_opts = Some (\<lambda>e r. False)" "config number_opts = None"
    "tags number_opts = None"
    by (simp_all add: number_opts_def)
  have r: "returns (callback number_opts) e v" "returns (Some (\<lambda>e r. False)) e v" for e v
    by (simp_all add: o returns_def)
  have tick: "promise (metadata_tick number_opts) = Rejected shape_error"
    "cb_calls (metadata_tick number_opts) = [(Some shape_error, JUndefined)]"
    "spawned (metadata_tick number_opts) = [[JStr ''-j'']]"
    by (simp_all add: tick_unsupported [OF src] returns_def reject_def initial_def o default_to_def
          prepareTags_def)
  have "metadata sample_parse number_opts (?evs @ [Close (Some 0)]) =
          on_close sample_parse (callback number_opts) (Some 0)
            ((metadata_tick number_opts)\<lparr>exifdata := stdout_of ?evs, exiferr := stderr_of ?evs\<rparr>)"
    by (rule metadata_run_to_close) (simp_all add: tick)
  then have run: "metadata sample_parse number_opts [StdoutData ''[{}]'', Close (Some 0)] =
          on_close sample_parse (callback number_opts) (Some 0)
            ((metadata_tick number_opts)\<lparr>exifdata := ''[{}]'', exiferr := []\<rparr>)"
    by simp
  have p: "promise (metadata sample_parse number_opts [StdoutData ''[{}]'', Close (Some 0)]) =
     Rejected shape_error"
    unfolding run on_close_def Let_def case_prod_beta
    by (simp add: sample_parse_def resolve_def tick r)
  have cb: "cb_calls (metadata sample_parse number_opts [StdoutData ''[{}]'', Close (Some 0)]) =
     [(Some shape_error, JUndefined), (None, JObj [])]"
    unfolding run on_close_def Let_def case_prod_beta
    by (simp add: sample_parse_def tick r o)
  have sp: "spawned (metadata sample_parse number_opts [StdoutData ''[{}]'', Close (Some 0)]) =
     [[JStr ''-j'']]"
    by (simp add: metadata_process tick)
  have k: "kind shape_error = TypeError"
    by (simp add: shape_error_def new_Error_def)
  have s: "outcome (metadataSync sample_parse (process_printing ''[{}]'' [] (Some 0)) number_opts) =
     Inl shape_error"
    "invoked (metadataSync sample_parse (process_printing ''[{}]'' [] (Some 0)) number_opts) = []"
    by (simp_all add: metadataSync_unsupported [OF src] shape_error_def)
  from src p k sp cb s show ?thesis
    by (intro conjI)
qed

text \<open>
  The elements of an array are not looked at: \<^verbatim>\<open>Array.isArray\<close> alone decides, and the
  elements go into the argument list as they are.
\<close>

lemma array_elements_unchecked:
  "invoked (metadataSync sample_parse (process_printing ''[{}]'' [] (Some 0)) array_opts) =
     [([JStr ''-j'', JNum 42], None)] \<and>
   spawned (metadata sample_parse array_opts []) = [[JStr ''-j'', JNum 42]]"
proof -
  have o: "source array_opts = JArr [JNum 42]" "tags array_opts = None" "config array_opts = None"
    by (simp_all add: array_opts_def)
  show ?thesis
    by (simp add: metadataSync_JArr metadata_process tick_supported initial_def o prepareTags_def
          default_to_def)
qed

section \<open>One element is unwrapped, whatever the exit code\<close>

text \<open>
  For a source of one of the three shapes, a process that delivers its output and closes, and
  a callback that returns (or none), an output that parses as an array gives the single
  element or the whole array, in both forms and for every exit code.
\<close>

lemma array_result:
  "(truthy (source opts) \<and> supported (source opts) \<and> list_all is_data evs \<and>
    P (stdout_of evs) = Some (JArr xs) \<and>
    returns (callback opts) None (case xs of [x] \<Rightarrow> x | _ \<Rightarrow> JArr xs) \<longrightarrow>
      promise (metadata P opts (evs @ [Close c])) =
        Resolved (case xs of [x] \<Rightarrow> x | _ \<Rightarrow> JArr xs) \<and>
      cb_calls (metadata P opts (evs @ [Close c])) =
        (case callback opts of None \<Rightarrow> []
         | Some f \<Rightarrow> [(None, case xs of [x] \<Rightarrow> x | _ \<Rightarrow> JArr xs)])) \<and>
   (invoked (metadataSync P S opts) = [(args, inp)] \<and>
    P (et_stdout (S args inp)) = Some (JArr xs) \<longrightarrow>
      outcome (metadataSync P S opts) = Inr (case xs of [x] \<Rightarrow> x | _ \<Rightarrow> JArr xs))"
proof (intro conjI impI; elim conjE)
  assume a: "truthy (source opts)" "supported (source opts)" "list_all is_data evs"
    "P (stdout_of evs) = Some (JArr xs)"
    and r: "returns (callback opts) None (case xs of [x] \<Rightarrow> x | _ \<Rightarrow> JArr xs)"
  have len: "get_length (JArr xs) = Some (JNum (int (length xs)))"
    by simp
  from r have r': "returns (callback opts) None
      (if JNum (int (length xs)) = JNum 1 then get_index0 (JArr xs) else JArr xs)"
    by (simp only: unwrap_array)
  from metadata_success(1) [where P = P and c = c, OF a len r']
  show "promise (metadata P opts (evs @ [Close c])) =
          Resolved (case xs of [x] \<Rightarrow> x | _ \<Rightarrow> JArr xs)"
    by (simp only: unwrap_array)
  from metadata_success(2) [where P = P and c = c, OF a len r']
  show "cb_calls (metadata P opts (evs @ [Close c])) =
          (case callback opts of None \<Rightarrow> []
           | Some f \<Rightarrow> [(None, case xs of [x] \<Rightarrow> x | _ \<Rightarrow> JArr xs)])"
    by (simp only: unwrap_array)
next
  assume s: "invoked (metadataSync P S opts) = [(args, inp)]"
    "P (et_stdout (S args inp)) = Some (JArr xs)"
  have len: "get_length (JArr xs) = Some (JNum (int (length xs)))"
    by simp
  from sync_result_success [where P = P, OF s(2) len]
  show "outcome (metadataSync P S opts) = Inr (case xs of [x] \<Rightarrow> x | _ \<Rightarrow> JArr xs)"
    by (simp only: metadataSync_outcome_of_invoked [OF s(1)] unwrap_array)
qed

text \<open>
  Claim C1. The output \<^verbatim>\<open>[{}]\<close> parses as an array of one element, and two asynchronous
  calls do not resolve with that element. With the number 42 as the source the promise has
  been rejected with the TypeError before the process was started, and stays so. With a
  path as the source and a callback that throws when it is handed the result, the exception
  is caught by the \<^verbatim>\<open>catch\<close> block of the \<^verbatim>\<open>close\<close> handler: the callback is called a
  second time and the promise is rejected with the parse error.
\<close>

theorem parsed_run_not_resolved:
  "sample_parse (stdout_of [StdoutData ''[{}]'']) = Some (JArr [JObj []]) \<and>
   promise (metadata sample_parse number_opts ([StdoutData ''[{}]''] @ [Close (Some 0)])) =
     Rejected shape_error \<and>
   truthy (source throwing_opts) \<and> supported (source throwing_opts) \<and>
   promise (metadata sample_parse throwing_opts ([StdoutData ''[{}]''] @ [Close (Some 0)])) =
     Rejected (close_error (Some 0) ''[{}]'' []) \<and>
   cb_calls (metadata sample_parse throwing_opts ([StdoutData ''[{}]''] @ [Close (Some 0)])) =
     [(None, JObj []), (Some (close_error (Some 0) ''[{}]'' []), JUndefined)] \<and>
   message (close_error (Some 0) ''[{}]'' []) = ''Could not parse exiftool output!''"
proof -
  let ?evs = "[StdoutData ''[{}]'']"
  have parse: "sample_parse (stdout_of ?evs) = Some (JArr [JObj []])"
    by (simp add: sample_parse_def)
  have len: "get_length (JArr [JObj []]) = Some (JNum 1)"
    by simp
  have d: "list_all is_data ?evs"
    by simp
  have nsrc: "truthy (source number_opts)" "\<not> supported (source number_opts)"
    by (simp_all add: number_opts_def)
  have no: "callback number_opts = Some (\<lambda>e r. False)" "config number_opts = None"
    "tags number_opts = None"
    by (simp_all add: number_opts_def)
  have nr: "returns (callback number_opts) e v" for e v
    by (simp add: no returns_def)
  have tick: "promise (metadata_tick number_opts) = Rejected shape_error"
    "spawned (metadata_tick number_opts) \<noteq> []"
    by (simp_all add: tick_unsupported [OF nsrc] returns_def reject_def initial_def no)
  have run: "metadata sample_parse number_opts (?evs @ [Close (Some 0)]) =
          on_close sample_parse (callback number_opts) (Some 0)
            ((metadata_tick number_opts)\<lparr>exifdata := stdout_of ?evs, exiferr := stderr_of ?evs\<rparr>)"
    using tick(2) d by (rule metadata_run_to_close)
  have n: "promise (metadata sample_parse number_opts (?evs @ [Close (Some 0)])) =
     Rejected shape_error"
    unfolding run on_close_def Let_def case_prod_beta
    by (simp add: sample_parse_def resolve_def tick nr)
  have tsrc: "truthy (source throwing_opts)" "supported (source throwing_opts)"
    by (simp_all add: throwing_opts_def)
  have tcb: "callback throwing_opts = Some (\<lambda>e r. e = None)"
    by (simp add: throwing_opts_def)
  have threw: "\<not> returns (callback throwing_opts) None
                  (if JNum 1 = JNum 1 then get_index0 (JArr [JObj []]) else JArr [JObj []])"
    by (simp add: tcb returns_def)
  have ret: "returns (callback throwing_opts) (Some e) v" for e v
    by (simp add: tcb returns_def)
  have p: "promise (metadata sample_parse throwing_opts (?evs @ [Close (Some 0)])) =
     Rejected (close_error (Some 0) ''[{}]'' [])"
    using metadata_callback_threw(1)
            [where P = sample_parse and c = "Some 0", OF tsrc d parse len threw]
    by (simp add: ret)
  have cb: "cb_calls (metadata sample_parse throwing_opts (?evs @ [Close (Some 0)])) =
     [(None, JObj []), (Some (close_error (Some 0) ''[{}]'' []), JUndefined)]"
    using metadata_callback_threw(2)
            [where P = sample_parse and c = "Some 0", OF tsrc d parse len threw]
    by (simp add: tcb)
  have m: "message (close_error (Some 0) ''[{}]'' []) = ''Could not parse exiftool output!''"
    by (simp add: close_error_def)
  from parse n tsrc p cb m show ?thesis
    by (intro conjI)
qed

section \<open>The unwrap is keyed on the length property\<close>




section \<open>The error of an output that does not parse\<close>

text \<open>
  Claim C3, amended. Take an asynchronous call with a source of one of the three shapes
  whose process delivers its output and closes, no \<^verbatim>\<open>error\<close> event before, and whose
  accumulated output does not parse. The error the \<^verbatim>\<open>close\<close> handler builds has the
  fields \<^verbatim>\<open>code\<close>, \<^verbatim>\<open>stdout\<close> and \<^verbatim>\<open>stderr\<close> with the exit code and the two captured
  texts, and its message, when the error text is not empty, is
  \<^verbatim>\<open>Exiftool failed with exit code\<close>, the code, a colon, a line break, a blank and the
  error text. A callback, when there is one, is called with this error, and the promise is
  rejected with it when there is no callback or the callback returns. The synchronous form
  throws an error with a fixed message that carries the two texts under \<^verbatim>\<open>commandlog\<close> and
  has no exit code.
\<close>

theorem parse_failure_error:
  "(truthy (source opts) \<and> supported (source opts) \<and> list_all is_data evs \<and>
    P (stdout_of evs) = None \<longrightarrow>
      (\<exists>e. cb_calls (metadata P opts (evs @ [Close c])) =
             (case callback opts of None \<Rightarrow> [] | Some f \<Rightarrow> [(Some e, JUndefined)]) \<and>
           (returns (callback opts) (Some e) JUndefined \<longrightarrow>
              promise (metadata P opts (evs @ [Close c])) = Rejected e) \<and>
           code e = Some c \<and> stdout e = Some (stdout_of evs) \<and> stderr e = Some (stderr_of evs) \<and>
           (stderr_of evs \<noteq> [] \<longrightarrow>
              message e =
                ''Exiftool failed with exit code '' @ string_of_code c @
                [CHR '':'', CHR 0x0A, CHR '' ''] @ stderr_of evs))) \<and>
   (invoked (metadataSync P S opts) = [(args, inp)] \<and> P (et_stdout (S args inp)) = None \<longrightarrow>
      (\<exists>e. outcome (metadataSync P S opts) = Inl e \<and>
           message e = ''Could not parse data returned by ExifTool'' \<and>
           commandlog e = Some (et_stdout (S args inp), et_stderr (S args inp)) \<and>
           code e = None \<and> stdout e = None \<and> stderr e = None))"
proof (intro conjI impI; elim conjE)
  assume h: "truthy (source opts)" "supported (source opts)" "list_all is_data evs"
    and n: "P (stdout_of evs) = None"
  let ?e = "close_error c (stdout_of evs) (stderr_of evs)"
  from n have f: "P (stdout_of evs) = None \<or>
                 (\<exists>v. P (stdout_of evs) = Some v \<and> get_length v = None)"
    by simp
  have cb: "cb_calls (metadata P opts (evs @ [Close c])) =
             (case callback opts of None \<Rightarrow> [] | Some f \<Rightarrow> [(Some ?e, JUndefined)])"
    using h f by (rule metadata_failure(2))
  have p: "returns (callback opts) (Some ?e) JUndefined \<longrightarrow>
              promise (metadata P opts (evs @ [Close c])) = Rejected ?e"
    using metadata_failure(1) [where P = P and c = c, OF h f] by simp
  have flds: "code ?e = Some c" "stdout ?e = Some (stdout_of evs)" "stderr ?e = Some (stderr_of evs)"
    by (simp_all add: close_error_def)
  have msg: "stderr_of evs \<noteq> [] \<longrightarrow>
              message ?e =
                ''Exiftool failed with exit code '' @ string_of_code c @
                [CHR '':'', CHR 0x0A, CHR '' ''] @ stderr_of evs"
    by (simp add: close_error_def)
  show "\<exists>e. cb_calls (metadata P opts (evs @ [Close c])) =
             (case callback opts of None \<Rightarrow> [] | Some f \<Rightarrow> [(Some e, JUndefined)]) \<and>
           (returns (callback opts) (Some e) JUndefined \<longrightarrow>
              promise (metadata P opts (evs @ [Close c])) = Rejected e) \<and>
           code e = Some c \<and> stdout e = Some (stdout_of evs) \<and> stderr e = Some (stderr_of evs) \<and>
           (stderr_of evs \<noteq> [] \<longrightarrow>
              message e =
                ''Exiftool failed with exit code '' @ string_of_code c @
                [CHR '':'', CHR 0x0A, CHR '' ''] @ stderr_of evs)"
    by (rule exI [of _ ?e]) (intro conjI cb p flds msg)
next
  assume i: "invoked (metadataSync P S opts) = [(args, inp)]"
    and n: "P (et_stdout (S args inp)) = None"
  from n have f: "P (et_stdout (S args inp)) = None \<or>
                 (\<exists>v. P (et_stdout (S args inp)) = Some v \<and> get_length v = None)"
    by simp
  show "\<exists>e. outcome (metadataSync P S opts) = Inl e \<and>
           message e = ''Could not parse data returned by ExifTool'' \<and>
           commandlog e = Some (et_stdout (S args inp), et_stderr (S args inp)) \<and>
           code e = None \<and> stdout e = None \<and> stderr e = None"
    by (simp add: metadataSync_outcome_of_invoked [OF i] sync_result_failure [where P = P, OF f])
qed

theorem parse_failure_error_witness:
  "truthy (source sample_opts) \<and> supported (source sample_opts) \<and>
   list_all is_data [StderrData ''File not found''] \<and>
   sample_parse (stdout_of [StderrData ''File not found'']) = None \<and>
   stderr_of [StderrData ''File not found''] \<noteq> [] \<and>
   (\<exists>e. promise (metadata sample_parse sample_opts ([StderrData ''File not found''] @ [Close (Some 1)])) =
          Rejected e \<and>
        returns (callback sample_opts) (Some e) JUndefined \<and>
        cb_calls (metadata sample_parse sample_opts ([StderrData ''File not found''] @ [Close (Some 1)])) =
          [(Some e, JUndefined)] \<and>
        code e = Some (Some 1) \<and> stdout e = Some [] \<and> stderr e = Some ''File not found'' \<and>
        message e =
          ''Exiftool failed with exit code 1:'' @ [CHR 0x0A] @ '' File not found'') \<and>
   invoked (metadataSync sample_parse (process_printing [] ''File not found'' (Some 1)) sample_opts) =
     [([JStr ''-Model'', JStr ''--ThumbnailImage'', JStr ''-j'', JStr ''a.jpg''], None)] \<and>
   (\<exists>e. outcome (metadataSync sample_parse (process_printing [] ''File not found'' (Some 1)) sample_opts) =
          Inl e \<and>
        message e = ''Could not parse data returned by ExifTool'' \<and>
        commandlog e = Some ([], ''File not found'') \<and> code e = None)"
proof -
  let ?args = "[JStr ''-Model'', JStr ''--ThumbnailImage'', JStr ''-j'', JStr ''a.jpg'']"
  let ?S = "process_printing [] ''File not found'' (Some 1)"
  have o: "source sample_opts = JStr ''a.jpg''" "callback sample_opts = Some (\<lambda>e r. False)"
    "tags sample_opts = Some [''Model'', ''-ThumbnailImage'']"
    by (simp_all add: sample_opts_def)
  have src: "truthy (source sample_opts)" "supported (source sample_opts)"
    by (simp_all add: o)
  have r: "returns (callback sample_opts) e v" for e v
    by (simp add: o returns_def)
  have d: "list_all is_data [StderrData ''File not found'']"
    "sample_parse (stdout_of [StderrData ''File not found'']) = None"
    "stderr_of [StderrData ''File not found''] \<noteq> []"
    by (simp_all add: sample_parse_def)
  have i: "invoked (metadataSync sample_parse ?S sample_opts) = [(?args, None)]"
    by (simp add: metadataSync_JStr o prepareTags_def)
  have q: "sample_parse (et_stdout (?S ?args None)) = None"
    "et_stdout (?S ?args None) = []" "et_stderr (?S ?args None) = ''File not found''"
    by (simp_all add: sample_parse_def process_printing_def)
  have c1: "string_of_code (Some 1) = ''1''"
    by (simp add: string_of_code_def digits.simps)
  note t = parse_failure_error [where P = sample_parse and opts = sample_opts and c = "Some 1"
             and evs = "[StderrData ''File not found'']" and S = ?S and args = ?args and inp = None]
  from t [THEN conjunct1] src d obtain e where
    e: "cb_calls (metadata sample_parse sample_opts ([StderrData ''File not found''] @ [Close (Some 1)])) =
          (case callback sample_opts of None \<Rightarrow> [] | Some f \<Rightarrow> [(Some e, JUndefined)])"
      "returns (callback sample_opts) (Some e) JUndefined \<longrightarrow>
         promise (metadata sample_parse sample_opts ([StderrData ''File not found''] @ [Close (Some 1)])) =
           Rejected e"
      "code e = Some (Some 1)" "stdout e = Some (stdout_of [StderrData ''File not found''])"
      "stderr e = Some (stderr_of [StderrData ''File not found''])"
      "message e = ''Exiftool failed with exit code '' @ string_of_code (Some 1) @
                [CHR '':'', CHR 0x0A, CHR '' ''] @ stderr_of [StderrData ''File not found'']"
    by auto
  have a: "\<exists>e. promise (metadata sample_parse sample_opts ([StderrData ''File not found''] @ [Close (Some 1)])) =
          Rejected e \<and>
        returns (callback sample_opts) (Some e) JUndefined \<and>
        cb_calls (metadata sample_parse sample_opts ([StderrData ''File not found''] @ [Close (Some 1)])) =
          [(Some e, JUndefined)] \<and>
        code e = Some (Some 1) \<and> stdout e = Some [] \<and> stderr e = Some ''File not found'' \<and>
        message e =
          ''Exiftool failed with exit code 1:'' @ [CHR 0x0A] @ '' File not found''"
    apply (rule exI [of _ e])
    using e r [of "Some e" JUndefined]
    apply (simp add: c1 o(2))
    done
  have s: "\<exists>e. outcome (metadataSync sample_parse ?S sample_opts) = Inl e \<and>
        message e = ''Could not parse data returned by ExifTool'' \<and>
        commandlog e = Some ([], ''File not found'') \<and> code e = None"
    using t [THEN conjunct2] i q by auto
  from src d i a s show ?thesis
    by (intro conjI)
qed

text \<open>
  The claim as stated includes the synchronous form, whose error has no \<^verbatim>\<open>code\<close>,
  \<^verbatim>\<open>stdout\<close> or \<^verbatim>\<open>stderr\<close> property.
\<close>

theorem parse_failure_error_counterexample:
  "\<not> (\<forall>S opts args inp e.
        invoked (metadataSync sample_parse S opts) = [(args, inp)] \<and>
        sample_parse (et_stdout (S args inp)) = None \<and>
        outcome (metadataSync sample_parse S opts) = Inl e \<longrightarrow>
        code e = Some (et_status (S args inp)) \<and> stdout e = Some (et_stdout (S args inp)) \<and>
        stderr e = Some (et_stderr (S args inp)))"
proof
  let ?args = "[JStr ''-Model'', JStr ''--ThumbnailImage'', JStr ''-j'', JStr ''a.jpg'']"
  let ?S = "process_printing [] ''File not found'' (Some 1)"
  let ?e = "(new_Error Error ''Could not parse data returned by ExifTool'')
              \<lparr>commandlog := Some ([], ''File not found'')\<rparr>"
  assume claim: "\<forall>S opts args inp e.
        invoked (metadataSync sample_parse S opts) = [(args, inp)] \<and>
        sample_parse (et_stdout (S args inp)) = None \<and>
        outcome (metadataSync sample_parse S opts) = Inl e \<longrightarrow>
        code e = Some (et_status (S args inp)) \<and> stdout e = Some (et_stdout (S args inp)) \<and>
        stderr e = Some (et_stderr (S args inp))"
  have o: "source sample_opts = JStr ''a.jpg''"
    "tags sample_opts = Some [''Model'', ''-ThumbnailImage'']"
    by (simp_all add: sample_opts_def)
  have i: "invoked (metadataSync sample_parse ?S sample_opts) = [(?args, None)]"
    by (simp add: metadataSync_JStr o prepareTags_def)
  have q: "sample_parse (et_stdout (?S ?args None)) = None"
    by (simp add: sample_parse_def process_printing_def)
  have "outcome (metadataSync sample_parse ?S sample_opts) = sync_result sample_parse (?S ?args None)"
    using i by (rule metadataSync_outcome_of_invoked)
  also have "\<dots> = Inl ?e"
    by (simp add: sync_result_def sample_parse_def process_printing_def)
  finally have out: "outcome (metadataSync sample_parse ?S sample_opts) = Inl ?e" .
  have "code ?e = Some (et_status (?S ?args None))"
    using claim [rule_format, of ?S sample_opts ?args None ?e] i q out by blast
  then show False
    by (simp add: new_Error_def)
qed

section \<open>A missing source\<close>

text \<open>
  Claim C6, amended. With an absent or falsy source no process is started. In the
  asynchronous form the error is a TypeError: a callback, when there is one, is called once
  with it, and the promise is rejected with it when there is no callback or the callback
  returns. The synchronous form throws an \<^verbatim>\<open>Error\<close> (not a TypeError) with the message
  \<^verbatim>\<open>Undefined "source"\<close>.
\<close>

theorem missing_source_fails:
  "\<not> truthy (source opts) \<longrightarrow>
     (\<exists>e. kind e = TypeError \<and>
          message e = ''\"source\" must be a string, [string] or Buffer'' \<and>
          cb_calls (metadata P opts evs) =
            (case callback opts of None \<Rightarrow> [] | Some f \<Rightarrow> [(Some e, JUndefined)]) \<and>
          (returns (callback opts) (Some e) JUndefined \<longrightarrow>
             promise (metadata P opts evs) = Rejected e)) \<and>
     spawned (metadata P opts evs) = [] \<and> stdin_ops (metadata P opts evs) = [] \<and>
     (\<exists>e. outcome (metadataSync P S opts) = Inl e \<and> kind e = Error \<and>
          message e = ''Undefined \"source\"'') \<and>
     invoked (metadataSync P S opts) = []"
proof
  assume f: "\<not> truthy (source opts)"
  note tick = tick_falsy [OF f]
  have none: "spawned (metadata_tick opts) = []" "stdin_ops (metadata_tick opts) = []"
    by (simp_all add: tick initial_def)
  then have run: "metadata P opts evs = metadata_tick opts"
    by (simp add: metadata_def Let_def)
  have p: "returns (callback opts) (Some shape_error) JUndefined \<longrightarrow>
             promise (metadata P opts evs) = Rejected shape_error"
    by (simp add: run tick reject_def initial_def)
  have cb: "cb_calls (metadata P opts evs) =
              (case callback opts of None \<Rightarrow> [] | Some f \<Rightarrow> [(Some shape_error, JUndefined)])"
    by (simp add: run tick initial_def)
  have k: "kind shape_error = TypeError"
    "message shape_error = ''\"source\" must be a string, [string] or Buffer''"
    by (simp_all add: shape_error_def new_Error_def)
  have a: "\<exists>e. kind e = TypeError \<and>
          message e = ''\"source\" must be a string, [string] or Buffer'' \<and>
          cb_calls (metadata P opts evs) =
            (case callback opts of None \<Rightarrow> [] | Some f \<Rightarrow> [(Some e, JUndefined)]) \<and>
          (returns (callback opts) (Some e) JUndefined \<longrightarrow>
             promise (metadata P opts evs) = Rejected e)"
    by (rule exI [of _ shape_error]) (intro conjI k cb p)
  have s: "(\<exists>e. outcome (metadataSync P S opts) = Inl e \<and> kind e = Error \<and>
          message e = ''Undefined \"source\"'') \<and>
     invoked (metadataSync P S opts) = []"
    by (simp add: metadataSync_falsy [OF f] new_Error_def)
  have sp: "spawned (metadata P opts evs) = []" "stdin_ops (metadata P opts evs) = []"
    by (simp_all add: run none)
  from a s sp show "(\<exists>e. kind e = TypeError \<and>
          message e = ''\"source\" must be a string, [string] or Buffer'' \<and>
          cb_calls (metadata P opts evs) =
            (case callback opts of None \<Rightarrow> [] | Some f \<Rightarrow> [(Some e, JUndefined)]) \<and>
          (returns (callback opts) (Some e) JUndefined \<longrightarrow>
             promise (metadata P opts evs) = Rejected e)) \<and>
     spawned (metadata P opts evs) = [] \<and> stdin_ops (metadata P opts evs) = [] \<and>
     (\<exists>e. outcome (metadataSync P S opts) = Inl e \<and> kind e = Error \<and>
          message e = ''Undefined \"source\"'') \<and>
     invoked (metadataSync P S opts) = []"
    by (intro conjI) simp_all
qed

theorem missing_source_fails_witness:
  "\<not> truthy (source missing_opts) \<and>
   (\<exists>e. kind e = TypeError \<and> returns (callback missing_opts) (Some e) JUndefined \<and>
        promise (metadata sample_parse missing_opts []) = Rejected e \<and>
        cb_calls (metadata sample_parse missing_opts []) = [(Some e, JUndefined)]) \<and>
   spawned (metadata sample_parse missing_opts []) = [] \<and>
   (\<exists>e. outcome (metadataSync sample_parse (process_printing ''[{}]'' [] (Some 0)) missing_opts) = Inl e \<and>
        kind e = Error \<and> message e = ''Undefined \"source\"'') \<and>
   invoked (metadataSync sample_parse (process_printing ''[{}]'' [] (Some 0)) missing_opts) = []"
proof -
  have o: "\<not> truthy (source missing_opts)" "callback missing_opts = Some (\<lambda>e r. False)"
    by (simp_all add: missing_opts_def)
  have r: "returns (callback missing_opts) e v" for e v
    by (simp add: o returns_def)
  note t = missing_source_fails
         [where P = sample_parse and S = "process_printing ''[{}]'' [] (Some 0)"
            and opts = missing_opts and evs = "[]", rule_format, OF o(1)]
  from t obtain e where e: "kind e = TypeError"
    "cb_calls (metadata sample_parse missing_opts []) =
       (case callback missing_opts of None \<Rightarrow> [] | Some f \<Rightarrow> [(Some e, JUndefined)])"
    "returns (callback missing_opts) (Some e) JUndefined \<longrightarrow>
       promise (metadata sample_parse missing_opts []) = Rejected e"
    by auto
  have a: "\<exists>e. kind e = TypeError \<and> returns (callback missing_opts) (Some e) JUndefined \<and>
        promise (metadata sample_parse missing_opts []) = Rejected e \<and>
        cb_calls (metadata sample_parse missing_opts []) = [(Some e, JUndefined)]"
    apply (rule exI [of _ e])
    using e r [of "Some e" JUndefined]
    apply (simp add: o(2))
    done
  from t have rest: "spawned (metadata sample_parse missing_opts []) = []"
    "\<exists>e. outcome (metadataSync sample_parse (process_printing ''[{}]'' [] (Some 0)) missing_opts) = Inl e \<and>
        kind e = Error \<and> message e = ''Undefined \"source\"''"
    "invoked (metadataSync sample_parse (process_printing ''[{}]'' [] (Some 0)) missing_opts) = []"
    by simp_all
  from o(1) a rest show ?thesis
    by (intro conjI)
qed

text \<open>The claim as stated calls the error of both forms a type-mismatch error.\<close>

theorem missing_source_fails_counterexample:
  "\<not> (\<forall>opts. \<not> truthy (source opts) \<longrightarrow>
        (\<exists>e. outcome (metadataSync sample_parse (process_printing ''[{}]'' [] (Some 0)) opts) = Inl e \<and>
             kind e = TypeError))"
proof
  assume claim: "\<forall>opts. \<not> truthy (source opts) \<longrightarrow>
        (\<exists>e. outcome (metadataSync sample_parse (process_printing ''[{}]'' [] (Some 0)) opts) = Inl e \<and>
             kind e = TypeError)"
  have f: "\<not> truthy (source missing_opts)"
    by (simp add: missing_opts_def)
  have "outcome (metadataSync sample_parse (process_printing ''[{}]'' [] (Some 0)) missing_opts) =
          Inl (new_Error Error ''Undefined \"source\"'')"
    by (simp add: metadataSync_falsy [OF f])
  moreover
  have "\<exists>e. outcome (metadataSync sample_parse (process_printing ''[{}]'' [] (Some 0)) missing_opts) = Inl e \<and>
             kind e = TypeError"
    using claim [rule_format, of missing_opts] f by simp
  ultimately show False
    by (simp add: new_Error_def)
qed

section \<open>The two forms side by side\<close>







end
